theory Spec2Isabelle
  imports Main "HOL-Library.Word"
begin

section \<open>Raindrop.io API client: a model of pkg/raindrop/client.go\<close>

text \<open>
  The model covers NewClient, CreateCollection, CreateSimpleRaindrop, DeleteTags,
  GetTaggedRaindrops, GetAuthorizationURL, GetAuthorizationCode, newRequest and
  parseResponse, with the parts of the Go library they call, and the decoding of the token
  exchange's response record. An operation that sends a
  request is split in two: the function with the suffix \<open>_request\<close> is the operation up to
  the request it hands to the transport, the operation itself goes on from there.

  Go strings are byte sequences: \<open>string\<close> (a list of 8-bit characters) is their model.
  Go's \<open>int\<close> is taken as the 64-bit signed integer of the usual platforms (\<open>64 word\<close>,
  read with \<open>sint\<close>), \<open>uint32\<close> is \<open>32 word\<close>. A status code is an \<open>int\<close>, since no
  arithmetic is done on it.
\<close>

subsection \<open>strconv\<close>

fun digits :: "nat \<Rightarrow> string" where
  "digits n =
     (if n < 10 then [''0123456789'' ! n]
      else digits (n div 10) @ [''0123456789'' ! (n mod 10)])"

declare digits.simps [simp del]

definition Itoa :: "int \<Rightarrow> string" where
  \<comment> \<open>strconv.Itoa, and the verb %d of fmt on an integer\<close>
  "Itoa i = (if i < 0 then CHR ''-'' # digits (nat (- i)) else digits (nat i))"

definition is_digit :: "char \<Rightarrow> bool" where
  "is_digit c = (c \<in> set ''0123456789'')"

definition digit_val :: "char \<Rightarrow> nat" where
  "digit_val c =
     (case map_of (zip ''0123456789'' [0, 1, 2, 3, 4, 5, 6, 7, 8, 9]) c of
        None \<Rightarrow> 0
      | Some n \<Rightarrow> n)"

definition decimal :: "string \<Rightarrow> nat option" where
  \<comment> \<open>a non-empty run of decimal digits, as its value\<close>
  "decimal s =
     (if s \<noteq> [] \<and> list_all is_digit s
      then Some (foldl (\<lambda>n c. 10 * n + digit_val c) 0 s) else None)"

definition ParseInt64 :: "string \<Rightarrow> int option" where
  \<comment> \<open>strconv.ParseInt(s, 10, 64): an optional sign, digits, and the range of int64\<close>
  "ParseInt64 s =
     (case s of
        [] \<Rightarrow> None
      | c # cs \<Rightarrow>
          (if c = CHR ''-'' then
             (case decimal cs of
                None \<Rightarrow> None
              | Some n \<Rightarrow> if n \<le> 2 ^ 63 then Some (- int n) else None)
           else
             (case decimal (if c = CHR ''+'' then cs else s) of
                None \<Rightarrow> None
              | Some n \<Rightarrow> if n < 2 ^ 63 then Some (int n) else None)))"

definition ParseUint32 :: "string \<Rightarrow> nat option" where
  \<comment> \<open>strconv.ParseUint(s, 10, 64) followed by the decoder's OverflowUint check for uint32\<close>
  "ParseUint32 s =
     (case decimal s of
        None \<Rightarrow> None
      | Some n \<Rightarrow> if n < 2 ^ 32 then Some n else None)"

subsection \<open>Errors, panics and outcomes\<close>

datatype error =
    ErrorString string
      \<comment> \<open>errors.New and fmt.Errorf (without %w): an error that is its message\<close>
  | SyntaxError string
      \<comment> \<open>*json.SyntaxError: the body is not a JSON text\<close>
  | UnmarshalTypeError string string
      \<comment> \<open>*json.UnmarshalTypeError: the JSON value's description and the Go type it does not fit\<close>
  | EscapeError string
      \<comment> \<open>url.EscapeError: a malformed percent escape\<close>
  | LibraryError string
      \<comment> \<open>an error of a collaborator (transport, URL parser, body stream)\<close>

datatype panic =
    NilPointerDereference
  | PanicError error  \<comment> \<open>panic(err)\<close>

datatype 'a outcome = Panics panic | Returns 'a

definition status_mismatch :: "int \<Rightarrow> error" where
  \<comment> \<open>fmt.Errorf("unexpected Status Code: %d", response.StatusCode)\<close>
  "status_mismatch code = ErrorString (''unexpected Status Code: '' @ Itoa code)"

subsection \<open>JSON values\<close>

text \<open>
  The JSON codec is a collaborator. Its syntax layer (bytes to and from JSON values) is
  not modelled: a JSON text is represented by the value it spells, a number by its
  literal, a string and a key by the Go string the decoder makes of it or the encoder is
  given (escaping, and the encoder's replacement of invalid UTF-8, belong to the syntax
  layer). What the codec does between JSON values and the Go structs of this package
  (field names, omitempty, type mismatches, null) is modelled below.
\<close>

datatype json =
    JNull
  | JBool bool
  | JNumber string
  | JString string
  | JArray "json list"
  | JObject "(string \<times> json) list"

datatype json_text =
    Invalid string  \<comment> \<open>bytes that are not a JSON text, with the scanner's complaint\<close>
  | Valid json      \<comment> \<open>the bytes of a JSON text, as the value they spell\<close>

fun json_kind :: "json \<Rightarrow> string" where
  \<comment> \<open>the Value of an UnmarshalTypeError for a JSON value of the wrong kind\<close>
  "json_kind JNull = ''null''"
| "json_kind (JBool _) = ''bool''"
| "json_kind (JNumber _) = ''number''"
| "json_kind (JString _) = ''string''"
| "json_kind (JArray _) = ''array''"
| "json_kind (JObject _) = ''object''"

text \<open>
  A slice is nil, or its elements together with what its backing array holds beyond its
  length: the decoder writes an array into the slots of the backing array, so a value left
  there by an earlier, longer array is the old value of a slot that is used again.
\<close>

datatype 'a slice =
    NilSlice
  | Slice "'a list" "'a list"

fun elems :: "'a slice \<Rightarrow> 'a list" where
  "elems NilSlice = []"
| "elems (Slice xs _) = xs"

fun backing :: "'a slice \<Rightarrow> 'a list" where
  "backing NilSlice = []"
| "backing (Slice xs spare) = xs @ spare"

subsection \<open>Decoding JSON values into Go values (encoding/json)\<close>

text \<open>
  A \<open>store\<close> function takes the JSON value and the target's current value. JSON null
  leaves a bool, a number, a string or a struct as it is, and makes a slice nil. A value of
  the wrong kind is an UnmarshalTypeError; the decoder reports the first one of the
  document.
\<close>

definition store_bool :: "json \<Rightarrow> bool \<Rightarrow> error + bool" where
  "store_bool v old =
     (case v of
        JNull \<Rightarrow> Inr old
      | JBool b \<Rightarrow> Inr b
      | _ \<Rightarrow> Inl (UnmarshalTypeError (json_kind v) ''bool''))"

definition store_string :: "json \<Rightarrow> string \<Rightarrow> error + string" where
  "store_string v old =
     (case v of
        JNull \<Rightarrow> Inr old
      | JString s \<Rightarrow> Inr s
      | _ \<Rightarrow> Inl (UnmarshalTypeError (json_kind v) ''string''))"

definition store_int :: "json \<Rightarrow> 64 word \<Rightarrow> error + 64 word" where
  "store_int v old =
     (case v of
        JNull \<Rightarrow> Inr old
      | JNumber s \<Rightarrow>
          (case ParseInt64 s of
             None \<Rightarrow> Inl (UnmarshalTypeError (''number '' @ s) ''int'')
           | Some n \<Rightarrow> Inr (word_of_int n))
      | _ \<Rightarrow> Inl (UnmarshalTypeError (json_kind v) ''int''))"

definition store_uint32 :: "json \<Rightarrow> 32 word \<Rightarrow> error + 32 word" where
  "store_uint32 v old =
     (case v of
        JNull \<Rightarrow> Inr old
      | JNumber s \<Rightarrow>
          (case ParseUint32 s of
             None \<Rightarrow> Inl (UnmarshalTypeError (''number '' @ s) ''uint32'')
           | Some n \<Rightarrow> Inr (of_nat n))
      | _ \<Rightarrow> Inl (UnmarshalTypeError (json_kind v) ''uint32''))"

fun store_elements ::
  "(json \<Rightarrow> 'a \<Rightarrow> error + 'a) \<Rightarrow> 'a \<Rightarrow> json list \<Rightarrow> 'a list \<Rightarrow> error + 'a list" where
  \<comment> \<open>element i is decoded into slot i of the backing array, a fresh slot being zero\<close>
  "store_elements store zero [] slots = Inr []"
| "store_elements store zero (v # vs) slots =
     (case store v (case slots of [] \<Rightarrow> zero | x # _ \<Rightarrow> x) of
        Inl e \<Rightarrow> Inl e
      | Inr y \<Rightarrow>
          (case store_elements store zero vs (tl slots) of
             Inl e \<Rightarrow> Inl e
           | Inr ys \<Rightarrow> Inr (y # ys)))"

definition store_slice ::
  "(json \<Rightarrow> 'a \<Rightarrow> error + 'a) \<Rightarrow> 'a \<Rightarrow> string \<Rightarrow> json \<Rightarrow> 'a slice \<Rightarrow> error + 'a slice" where
  "store_slice store zero ty v old =
     (case v of
        JNull \<Rightarrow> Inr NilSlice
      | JArray vs \<Rightarrow>
          (case store_elements store zero vs (backing old) of
             Inl e \<Rightarrow> Inl e
           | Inr ys \<Rightarrow>
               Inr (if vs = [] then Slice [] []
                    else Slice ys (drop (length vs) (backing old))))
      | _ \<Rightarrow> Inl (UnmarshalTypeError (json_kind v) ty))"

text \<open>
  An object member addresses the struct field whose JSON name equals its key, or else the
  field whose name equals it up to case folding. For the ASCII names of this package
  folding is: ASCII letters without case, the long s (U+017F) for s and the Kelvin sign
  (U+212A) for k.
\<close>

definition lower :: "char \<Rightarrow> char" where
  "lower c =
     (case map_of (zip ''ABCDEFGHIJKLMNOPQRSTUVWXYZ'' ''abcdefghijklmnopqrstuvwxyz'') c of
        None \<Rightarrow> c
      | Some l \<Rightarrow> l)"

fun fold_name :: "string \<Rightarrow> string" where
  "fold_name (a # b # c # cs) =
     (if a = CHR 0xE2 \<and> b = CHR 0x84 \<and> c = CHR 0xAA then CHR ''k'' # fold_name cs
      else if a = CHR 0xC5 \<and> b = CHR 0xBF then CHR ''s'' # fold_name (c # cs)
      else lower a # fold_name (b # c # cs))"
| "fold_name [a, b] =
     (if a = CHR 0xC5 \<and> b = CHR 0xBF then ''s'' else lower a # fold_name [b])"
| "fold_name [a] = [lower a]"
| "fold_name [] = []"

definition struct_field :: "string list \<Rightarrow> string \<Rightarrow> string option" where
  \<comment> \<open>the JSON name of the field that a member with this key addresses\<close>
  "struct_field names key =
     (if key \<in> set names then Some key
      else find (\<lambda>n. fold_name n = fold_name key) names)"

fun store_members ::
  "('a \<Rightarrow> string \<Rightarrow> json \<Rightarrow> error + 'a) \<Rightarrow> 'a \<Rightarrow> (string \<times> json) list \<Rightarrow> error + 'a" where
  \<comment> \<open>the members of an object, in the order of the document\<close>
  "store_members set_field r [] = Inr r"
| "store_members set_field r ((k, v) # ms) =
     (case set_field r k v of
        Inl e \<Rightarrow> Inl e
      | Inr r' \<Rightarrow> store_members set_field r' ms)"

definition store_struct ::
  "('a \<Rightarrow> string \<Rightarrow> json \<Rightarrow> error + 'a) \<Rightarrow> string \<Rightarrow> json \<Rightarrow> 'a \<Rightarrow> error + 'a" where
  "store_struct set_field ty v old =
     (case v of
        JNull \<Rightarrow> Inr old
      | JObject ms \<Rightarrow> store_members set_field old ms
      | _ \<Rightarrow> Inl (UnmarshalTypeError (json_kind v) ty))"

definition Unmarshal ::
  "('a \<Rightarrow> string \<Rightarrow> json \<Rightarrow> error + 'a) \<Rightarrow> string \<Rightarrow> json_text \<Rightarrow> 'a \<Rightarrow> error + 'a option" where
  \<comment> \<open>json.Unmarshal(body, &p) for a non-nil pointer p to the struct \<open>old\<close>: the syntax
      check comes first; null makes p nil (None); anything else is decoded into the struct
      p points to\<close>
  "Unmarshal set_field ty body old =
     (case body of
        Invalid msg \<Rightarrow> Inl (SyntaxError msg)
      | Valid JNull \<Rightarrow> Inr None
      | Valid v \<Rightarrow> map_sum id Some (store_struct set_field ty v old))"

subsection \<open>The records of bookmarks and collections\<close>

record access =
  Level :: "64 word"   \<comment> \<open>json:"level"\<close>
  Draggable :: bool    \<comment> \<open>json:"draggable"\<close>

record user =
  Id :: "64 word"  \<comment> \<open>json:"$id"\<close>

record media =
  Link :: string  \<comment> \<open>json:"link"\<close>

datatype pleaseParse = pleaseParse  \<comment> \<open>struct{}\<close>

record Collection =
  ID :: "32 word"          \<comment> \<open>json:"_id"\<close>
  Access :: access         \<comment> \<open>json:"access"\<close>
  Color :: string          \<comment> \<open>json:"color"\<close>
  Count :: "32 word"       \<comment> \<open>json:"count"\<close>
  Cover :: "string slice"  \<comment> \<open>json:"cover"\<close>
  Created :: string        \<comment> \<open>json:"created"\<close>
  LastUpdate :: string     \<comment> \<open>json:"lastUpdate"\<close>
  ParentId :: "64 word"    \<comment> \<open>json:"parent_id,omitempty"\<close>
  Expanded :: bool         \<comment> \<open>json:"expanded"\<close>
  Public :: bool           \<comment> \<open>json:"public"\<close>
  Title :: string          \<comment> \<open>json:"title"\<close>
  User :: user             \<comment> \<open>json:"user"\<close>
  View :: string           \<comment> \<open>json:"view"\<close>

record Raindrop =
  PleaseParse :: pleaseParse  \<comment> \<open>json:"pleaseParse"\<close>
  Created :: string           \<comment> \<open>json:"created,omitempty"\<close>
  LastUpdate :: string        \<comment> \<open>json:"lastUpdate,omitempty"\<close>
  Order :: "64 word"          \<comment> \<open>json:"order,omitempty"\<close>
  Tags :: "string slice"      \<comment> \<open>json:"tags,omitempty"\<close>
  Media :: "media slice"      \<comment> \<open>json:"media,omitempty"\<close>
  Cover :: string             \<comment> \<open>json:"cover,omitempty"\<close>
  Collection :: Collection    \<comment> \<open>json:"collection,omitempty"\<close>
  Type :: string              \<comment> \<open>json:"type,omitempty"\<close>
  HTML :: string              \<comment> \<open>json:"html,omitempty"\<close>
  Excerpt :: string           \<comment> \<open>json:"excerpt,omitempty"\<close>
  Title :: string             \<comment> \<open>json:"title,omitempty"\<close>
  Link :: string              \<comment> \<open>json:"link"\<close>

record SingleRaindropResponse =
  Result :: bool     \<comment> \<open>json:"result"\<close>
  Items :: Raindrop  \<comment> \<open>json:"item"\<close>

record MultiRaindropsResponse =
  Result :: bool             \<comment> \<open>json:"result"\<close>
  Items :: "Raindrop slice"  \<comment> \<open>json:"items"\<close>

definition zero_media :: media where
  "zero_media = \<lparr>media.Link = []\<rparr>"

definition zero_Collection :: Collection where
  "zero_Collection =
     \<lparr>ID = 0, Access = \<lparr>Level = 0, Draggable = False\<rparr>, Color = [], Count = 0,
      Collection.Cover = NilSlice, Collection.Created = [], Collection.LastUpdate = [],
      Collection.ParentId = 0, Expanded = False, Collection.Public = False,
      Collection.Title = [], User = \<lparr>Id = 0\<rparr>, Collection.View = []\<rparr>"

definition zero_Raindrop :: Raindrop where
  "zero_Raindrop =
     \<lparr>PleaseParse = pleaseParse, Raindrop.Created = [], Raindrop.LastUpdate = [], Order = 0,
      Tags = NilSlice, Media = NilSlice, Raindrop.Cover = [], Collection = zero_Collection,
      Type = [], HTML = [], Excerpt = [], Raindrop.Title = [], Raindrop.Link = []\<rparr>"

definition new_SingleRaindropResponse :: SingleRaindropResponse where
  "new_SingleRaindropResponse =
     \<lparr>SingleRaindropResponse.Result = False, SingleRaindropResponse.Items = zero_Raindrop\<rparr>"

definition new_MultiRaindropsResponse :: MultiRaindropsResponse where
  "new_MultiRaindropsResponse =
     \<lparr>MultiRaindropsResponse.Result = False, MultiRaindropsResponse.Items = NilSlice\<rparr>"

definition set_access :: "access \<Rightarrow> string \<Rightarrow> json \<Rightarrow> error + access" where
  "set_access r k v =
     (case struct_field [''level'', ''draggable''] k of
        None \<Rightarrow> Inr r
      | Some f \<Rightarrow>
          if f = ''level'' then map_sum id (\<lambda>x. r\<lparr>Level := x\<rparr>) (store_int v (Level r))
          else map_sum id (\<lambda>x. r\<lparr>Draggable := x\<rparr>) (store_bool v (Draggable r)))"

definition set_user :: "user \<Rightarrow> string \<Rightarrow> json \<Rightarrow> error + user" where
  "set_user r k v =
     (case struct_field [''$id''] k of
        None \<Rightarrow> Inr r
      | Some f \<Rightarrow> map_sum id (\<lambda>x. r\<lparr>Id := x\<rparr>) (store_int v (Id r)))"

definition set_media :: "media \<Rightarrow> string \<Rightarrow> json \<Rightarrow> error + media" where
  "set_media r k v =
     (case struct_field [''link''] k of
        None \<Rightarrow> Inr r
      | Some f \<Rightarrow> map_sum id (\<lambda>x. r\<lparr>media.Link := x\<rparr>) (store_string v (media.Link r)))"

definition set_pleaseParse :: "pleaseParse \<Rightarrow> string \<Rightarrow> json \<Rightarrow> error + pleaseParse" where
  \<comment> \<open>a struct without fields: every member is skipped\<close>
  "set_pleaseParse r k v = Inr r"

definition Collection_names :: "string list" where
  "Collection_names =
     [''_id'', ''access'', ''color'', ''count'', ''cover'', ''created'', ''lastUpdate'',
      ''parent_id'', ''expanded'', ''public'', ''title'', ''user'', ''view'']"

definition set_Collection :: "Collection \<Rightarrow> string \<Rightarrow> json \<Rightarrow> error + Collection" where
  "set_Collection r k v =
     (case struct_field Collection_names k of
        None \<Rightarrow> Inr r
      | Some f \<Rightarrow>
          if f = ''_id'' then map_sum id (\<lambda>x. r\<lparr>ID := x\<rparr>) (store_uint32 v (ID r))
          else if f = ''access'' then
            map_sum id (\<lambda>x. r\<lparr>Access := x\<rparr>)
              (store_struct set_access ''raindrop.access'' v (Access r))
          else if f = ''color'' then map_sum id (\<lambda>x. r\<lparr>Color := x\<rparr>) (store_string v (Color r))
          else if f = ''count'' then map_sum id (\<lambda>x. r\<lparr>Count := x\<rparr>) (store_uint32 v (Count r))
          else if f = ''cover'' then
            map_sum id (\<lambda>x. r\<lparr>Collection.Cover := x\<rparr>)
              (store_slice store_string [] ''[]string'' v (Collection.Cover r))
          else if f = ''created'' then
            map_sum id (\<lambda>x. r\<lparr>Collection.Created := x\<rparr>) (store_string v (Collection.Created r))
          else if f = ''lastUpdate'' then
            map_sum id (\<lambda>x. r\<lparr>Collection.LastUpdate := x\<rparr>)
              (store_string v (Collection.LastUpdate r))
          else if f = ''parent_id'' then
            map_sum id (\<lambda>x. r\<lparr>Collection.ParentId := x\<rparr>) (store_int v (Collection.ParentId r))
          else if f = ''expanded'' then
            map_sum id (\<lambda>x. r\<lparr>Expanded := x\<rparr>) (store_bool v (Expanded r))
          else if f = ''public'' then
            map_sum id (\<lambda>x. r\<lparr>Collection.Public := x\<rparr>) (store_bool v (Collection.Public r))
          else if f = ''title'' then
            map_sum id (\<lambda>x. r\<lparr>Collection.Title := x\<rparr>) (store_string v (Collection.Title r))
          else if f = ''user'' then
            map_sum id (\<lambda>x. r\<lparr>User := x\<rparr>) (store_struct set_user ''raindrop.user'' v (User r))
          else map_sum id (\<lambda>x. r\<lparr>Collection.View := x\<rparr>) (store_string v (Collection.View r)))"

definition Raindrop_names :: "string list" where
  "Raindrop_names =
     [''pleaseParse'', ''created'', ''lastUpdate'', ''order'', ''tags'', ''media'', ''cover'',
      ''collection'', ''type'', ''html'', ''excerpt'', ''title'', ''link'']"

definition set_Raindrop :: "Raindrop \<Rightarrow> string \<Rightarrow> json \<Rightarrow> error + Raindrop" where
  "set_Raindrop r k v =
     (case struct_field Raindrop_names k of
        None \<Rightarrow> Inr r
      | Some f \<Rightarrow>
          if f = ''pleaseParse'' then
            map_sum id (\<lambda>x. r\<lparr>PleaseParse := x\<rparr>)
              (store_struct set_pleaseParse ''raindrop.pleaseParse'' v (PleaseParse r))
          else if f = ''created'' then
            map_sum id (\<lambda>x. r\<lparr>Raindrop.Created := x\<rparr>) (store_string v (Raindrop.Created r))
          else if f = ''lastUpdate'' then
            map_sum id (\<lambda>x. r\<lparr>Raindrop.LastUpdate := x\<rparr>)
              (store_string v (Raindrop.LastUpdate r))
          else if f = ''order'' then map_sum id (\<lambda>x. r\<lparr>Order := x\<rparr>) (store_int v (Order r))
          else if f = ''tags'' then
            map_sum id (\<lambda>x. r\<lparr>Tags := x\<rparr>) (store_slice store_string [] ''[]string'' v (Tags r))
          else if f = ''media'' then
            map_sum id (\<lambda>x. r\<lparr>Media := x\<rparr>)
              (store_slice (store_struct set_media ''raindrop.media'') zero_media
                 ''[]raindrop.media'' v (Media r))
          else if f = ''cover'' then
            map_sum id (\<lambda>x. r\<lparr>Raindrop.Cover := x\<rparr>) (store_string v (Raindrop.Cover r))
          else if f = ''collection'' then
            map_sum id (\<lambda>x. r\<lparr>Collection := x\<rparr>)
              (store_struct set_Collection ''raindrop.Collection'' v (Collection r))
          else if f = ''type'' then map_sum id (\<lambda>x. r\<lparr>Type := x\<rparr>) (store_string v (Type r))
          else if f = ''html'' then map_sum id (\<lambda>x. r\<lparr>HTML := x\<rparr>) (store_string v (HTML r))
          else if f = ''excerpt'' then
            map_sum id (\<lambda>x. r\<lparr>Excerpt := x\<rparr>) (store_string v (Excerpt r))
          else if f = ''title'' then
            map_sum id (\<lambda>x. r\<lparr>Raindrop.Title := x\<rparr>) (store_string v (Raindrop.Title r))
          else map_sum id (\<lambda>x. r\<lparr>Raindrop.Link := x\<rparr>) (store_string v (Raindrop.Link r)))"

definition set_SingleRaindropResponse ::
  "SingleRaindropResponse \<Rightarrow> string \<Rightarrow> json \<Rightarrow> error + SingleRaindropResponse" where
  "set_SingleRaindropResponse r k v =
     (case struct_field [''result'', ''item''] k of
        None \<Rightarrow> Inr r
      | Some f \<Rightarrow>
          if f = ''result'' then
            map_sum id (\<lambda>x. r\<lparr>SingleRaindropResponse.Result := x\<rparr>)
              (store_bool v (SingleRaindropResponse.Result r))
          else
            map_sum id (\<lambda>x. r\<lparr>SingleRaindropResponse.Items := x\<rparr>)
              (store_struct set_Raindrop ''raindrop.Raindrop'' v (SingleRaindropResponse.Items r)))"

definition set_MultiRaindropsResponse ::
  "MultiRaindropsResponse \<Rightarrow> string \<Rightarrow> json \<Rightarrow> error + MultiRaindropsResponse" where
  "set_MultiRaindropsResponse r k v =
     (case struct_field [''result'', ''items''] k of
        None \<Rightarrow> Inr r
      | Some f \<Rightarrow>
          if f = ''result'' then
            map_sum id (\<lambda>x. r\<lparr>MultiRaindropsResponse.Result := x\<rparr>)
              (store_bool v (MultiRaindropsResponse.Result r))
          else
            map_sum id (\<lambda>x. r\<lparr>MultiRaindropsResponse.Items := x\<rparr>)
              (store_slice (store_struct set_Raindrop ''raindrop.Raindrop'') zero_Raindrop
                 ''[]raindrop.Raindrop'' v (MultiRaindropsResponse.Items r)))"

definition Unmarshal_SingleRaindropResponse ::
  "json_text \<Rightarrow> error + SingleRaindropResponse option" where
  "Unmarshal_SingleRaindropResponse bytes =
     Unmarshal set_SingleRaindropResponse ''raindrop.SingleRaindropResponse'' bytes
       new_SingleRaindropResponse"

definition Unmarshal_MultiRaindropsResponse ::
  "json_text \<Rightarrow> error + MultiRaindropsResponse option" where
  "Unmarshal_MultiRaindropsResponse bytes =
     Unmarshal set_MultiRaindropsResponse ''raindrop.MultiRaindropsResponse'' bytes
       new_MultiRaindropsResponse"

subsection \<open>The record of the token exchange\<close>

record AccessTokenResponse =
  AccessToken :: string   \<comment> \<open>json:"access_token,omitempty"\<close>
  RefreshToken :: string  \<comment> \<open>json:"refresh_token,omitempty"\<close>
  Expires :: "64 word"    \<comment> \<open>json:"expires,omitempty"\<close>
  ExpiresIn :: "64 word"  \<comment> \<open>json:"expires_in,omitempty"\<close>
  TokenType :: string     \<comment> \<open>json:"token_type,omitempty"\<close>
  Error :: string         \<comment> \<open>json:"error,omitempty"\<close>





subsection \<open>The records of collection creation and tag deletion\<close>

record createCollectionRequest =
  View :: string         \<comment> \<open>json:"view,omitempty"\<close>
  Title :: string        \<comment> \<open>json:"title,omitempty"\<close>
  Sort :: "64 word"      \<comment> \<open>json:"sort,omitempty"\<close>
  Public :: bool         \<comment> \<open>json:"public,omitempty"\<close>
  ParentId :: "32 word"  \<comment> \<open>json:"parent.$id,omitempty"\<close>
  Cover :: "string slice" \<comment> \<open>json:"cover,omitempty"\<close>

record CreateCollectionResponse =
  Result :: bool                   \<comment> \<open>json:"result"\<close>
  Item :: createCollectionRequest  \<comment> \<open>json:"item,omitempty"\<close>
  Error :: string                  \<comment> \<open>json:"error,omitempty"\<close>
  ErrorMessage :: string           \<comment> \<open>json:"errorMessage,omitempty"\<close>

record deleteTagsRequest =
  Tags :: "string slice"  \<comment> \<open>json:"tags"\<close>

record DeleteTagsResponse =
  Result :: bool  \<comment> \<open>json:"result"\<close>

definition zero_createCollectionRequest :: createCollectionRequest where
  "zero_createCollectionRequest =
     \<lparr>View = '''', Title = '''', Sort = 0, Public = False, ParentId = 0, Cover = NilSlice\<rparr>"

definition new_CreateCollectionResponse :: CreateCollectionResponse where
  \<comment> \<open>the struct that new(CreateCollectionResponse) points to\<close>
  "new_CreateCollectionResponse =
     \<lparr>CreateCollectionResponse.Result = False, Item = zero_createCollectionRequest,
      Error = '''', ErrorMessage = ''''\<rparr>"

definition new_DeleteTagsResponse :: DeleteTagsResponse where
  "new_DeleteTagsResponse = \<lparr>DeleteTagsResponse.Result = False\<rparr>"

definition createCollectionRequest_names :: "string list" where
  "createCollectionRequest_names =
     [''view'', ''title'', ''sort'', ''public'', ''parent.$id'', ''cover'']"

definition set_createCollectionRequest ::
  "createCollectionRequest \<Rightarrow> string \<Rightarrow> json \<Rightarrow> error + createCollectionRequest" where
  "set_createCollectionRequest r k v =
     (case struct_field createCollectionRequest_names k of
        None \<Rightarrow> Inr r
      | Some f \<Rightarrow>
          if f = ''view'' then map_sum id (\<lambda>x. r\<lparr>View := x\<rparr>) (store_string v (View r))
          else if f = ''title'' then map_sum id (\<lambda>x. r\<lparr>Title := x\<rparr>) (store_string v (Title r))
          else if f = ''sort'' then map_sum id (\<lambda>x. r\<lparr>Sort := x\<rparr>) (store_int v (Sort r))
          else if f = ''public'' then map_sum id (\<lambda>x. r\<lparr>Public := x\<rparr>) (store_bool v (Public r))
          else if f = ''parent.$id'' then
            map_sum id (\<lambda>x. r\<lparr>ParentId := x\<rparr>) (store_uint32 v (ParentId r))
          else map_sum id (\<lambda>x. r\<lparr>Cover := x\<rparr>)
                 (store_slice store_string [] ''[]string'' v (Cover r)))"

definition CreateCollectionResponse_names :: "string list" where
  "CreateCollectionResponse_names = [''result'', ''item'', ''error'', ''errorMessage'']"

definition set_CreateCollectionResponse ::
  "CreateCollectionResponse \<Rightarrow> string \<Rightarrow> json \<Rightarrow> error + CreateCollectionResponse" where
  "set_CreateCollectionResponse r k v =
     (case struct_field CreateCollectionResponse_names k of
        None \<Rightarrow> Inr r
      | Some f \<Rightarrow>
          if f = ''result'' then
            map_sum id (\<lambda>x. r\<lparr>CreateCollectionResponse.Result := x\<rparr>)
              (store_bool v (CreateCollectionResponse.Result r))
          else if f = ''item'' then
            map_sum id (\<lambda>x. r\<lparr>Item := x\<rparr>)
              (store_struct set_createCollectionRequest ''raindrop.createCollectionRequest'' v
                 (Item r))
          else if f = ''error'' then map_sum id (\<lambda>x. r\<lparr>Error := x\<rparr>) (store_string v (Error r))
          else map_sum id (\<lambda>x. r\<lparr>ErrorMessage := x\<rparr>) (store_string v (ErrorMessage r)))"

definition set_DeleteTagsResponse ::
  "DeleteTagsResponse \<Rightarrow> string \<Rightarrow> json \<Rightarrow> error + DeleteTagsResponse" where
  "set_DeleteTagsResponse r k v =
     (case struct_field [''result''] k of
        None \<Rightarrow> Inr r
      | Some f \<Rightarrow>
          map_sum id (\<lambda>x. r\<lparr>DeleteTagsResponse.Result := x\<rparr>)
            (store_bool v (DeleteTagsResponse.Result r)))"

definition Unmarshal_CreateCollectionResponse ::
  "json_text \<Rightarrow> error + CreateCollectionResponse option" where
  \<comment> \<open>json.Unmarshal(body, &result) with result := new(CreateCollectionResponse)\<close>
  "Unmarshal_CreateCollectionResponse bytes =
     Unmarshal set_CreateCollectionResponse ''raindrop.CreateCollectionResponse'' bytes
       new_CreateCollectionResponse"

definition Unmarshal_DeleteTagsResponse :: "json_text \<Rightarrow> error + DeleteTagsResponse option" where
  \<comment> \<open>json.Unmarshal(body, &r) with r := new(DeleteTagsResponse)\<close>
  "Unmarshal_DeleteTagsResponse bytes =
     Unmarshal set_DeleteTagsResponse ''raindrop.DeleteTagsResponse'' bytes new_DeleteTagsResponse"

subsection \<open>Responses and parseResponse\<close>

datatype body =
    Unreadable error      \<comment> \<open>reading the stream fails with this error\<close>
  | Readable json_text    \<comment> \<open>reading the stream yields these bytes\<close>

record response =
  StatusCode :: int
  Body :: body

definition ReadAll :: "body \<Rightarrow> error + json_text" where
  \<comment> \<open>ioutil.ReadAll(response.Body)\<close>
  "ReadAll b = (case b of Unreadable err \<Rightarrow> Inl err | Readable bytes \<Rightarrow> Inr bytes)"

definition parseResponse ::
  "response \<Rightarrow> int \<Rightarrow> (json_text \<Rightarrow> error + 'a) \<Rightarrow> (error + 'a) outcome" where
  \<comment> \<open>The third argument stands for clazz: what json.Unmarshal(body, clazz) does for the
      target's type. \<open>Inr\<close> is a nil error, with the decoded target. The deferred Close of
      the body and the line written to stderr are not modelled.\<close>
  "parseResponse response expectedStatus unmarshal =
     (if StatusCode response \<noteq> expectedStatus \<and> StatusCode response \<noteq> 400
      then Returns (Inl (status_mismatch (StatusCode response)))
      else
        (case ReadAll (Body response) of
           Inl err \<Rightarrow> Panics (PanicError err)
         | Inr bytes \<Rightarrow> Returns (unmarshal bytes)))"

subsection \<open>path\<close>

fun split_on :: "char \<Rightarrow> string \<Rightarrow> string list" where
  \<comment> \<open>strings.Split for a one-byte separator: the pieces between its occurrences\<close>
  "split_on sep [] = [[]]"
| "split_on sep (c # cs) =
     (if c = sep then [] # split_on sep cs
      else (case split_on sep cs of [] \<Rightarrow> [[c]] | e # es \<Rightarrow> (c # e) # es))"

fun join :: "char \<Rightarrow> string list \<Rightarrow> string" where
  \<comment> \<open>strings.Join for a one-byte separator\<close>
  "join sep [] = []"
| "join sep [e] = e"
| "join sep (e # es) = e @ sep # join sep es"

fun clean_elements :: "bool \<Rightarrow> string list \<Rightarrow> string list \<Rightarrow> string list" where
  \<comment> \<open>the loop of path.Clean over the elements; \<open>out\<close> is the output so far, last element
      first. An empty element and a dot are dropped; a dot-dot removes the last real element,
      is kept when the path is not rooted and there is none, is dropped at the root.\<close>
  "clean_elements rooted out [] = rev out"
| "clean_elements rooted out (e # es) =
     (if e = [] \<or> e = ''.'' then clean_elements rooted out es
      else if e = ''..'' then
        (case out of
           [] \<Rightarrow> clean_elements rooted (if rooted then [] else [e]) es
         | t # ts \<Rightarrow> clean_elements rooted (if t = ''..'' then e # out else ts) es)
      else clean_elements rooted (e # out) es)"

definition Clean :: "string \<Rightarrow> string" where
  \<comment> \<open>path.Clean\<close>
  "Clean p =
     (if p = [] then ''.''
      else
        (let rooted = (hd p = CHR ''/'');
             out = join CHR ''/'' (clean_elements rooted [] (split_on CHR ''/'' p))
         in if rooted then CHR ''/'' # out else if out = [] then ''.'' else out))"

definition Join :: "string list \<Rightarrow> string" where
  \<comment> \<open>path.Join: leading empty elements are ignored, the rest is joined and cleaned\<close>
  "Join elem =
     (case dropWhile (\<lambda>e. e = []) elem of
        [] \<Rightarrow> []
      | e # es \<Rightarrow> Clean (join CHR ''/'' (e # es)))"

subsection \<open>net/url\<close>

text \<open>
  A URL value carries the fields this package reads or writes. The URLs the client holds
  come from parsing the two host constants, so the other fields of url.URL (Opaque, User,
  RawPath, ForceQuery, Fragment) are unset in them, and \<open>URL_String\<close> is url.URL.String
  for such values.
\<close>

record url =
  Scheme :: string
  Host :: string
  Path :: string
  RawQuery :: string

datatype encoding = encodePath | encodeHost | encodeQueryComponent

definition is_alnum :: "char \<Rightarrow> bool" where
  "is_alnum c =
     (c \<in> set ''abcdefghijklmnopqrstuvwxyzABCDEFGHIJKLMNOPQRSTUVWXYZ0123456789'')"

definition shouldEscape :: "char \<Rightarrow> encoding \<Rightarrow> bool" where
  "shouldEscape c mode =
     (if is_alnum c then False
      else if mode = encodeHost \<and> c \<in> set ''!$&()*+,;=:[]<>'' \<union> {CHR 0x27, CHR 0x22} then False
      else if c \<in> set ''-_.~'' then False
      else if c \<in> set ''$&+,/:;=?@'' \<and> mode = encodePath then c = CHR ''?''
      else True)"

definition hex_upper :: "nat \<Rightarrow> char" where
  "hex_upper n = ''0123456789ABCDEF'' ! n"

definition percent :: "char \<Rightarrow> string" where
  "percent c = [CHR ''%'', hex_upper (of_char c div 16), hex_upper (of_char c mod 16)]"

definition escape :: "string \<Rightarrow> encoding \<Rightarrow> string" where
  "escape s mode =
     concat (map (\<lambda>c. if shouldEscape c mode
                       then (if c = CHR '' '' \<and> mode = encodeQueryComponent then ''+''
                             else percent c)
                       else [c]) s)"

definition QueryEscape :: "string \<Rightarrow> string" where
  "QueryEscape s = escape s encodeQueryComponent"

definition hex_val :: "char \<Rightarrow> nat option" where
  "hex_val c =
     map_of (zip ''0123456789abcdefABCDEF''
               [0, 1, 2, 3, 4, 5, 6, 7, 8, 9, 10, 11, 12, 13, 14, 15, 10, 11, 12, 13, 14, 15]) c"

fun QueryUnescape :: "string \<Rightarrow> error + string" where
  \<comment> \<open>url.QueryUnescape: %XX is the byte, + is a space; a % without two hex digits is an
      EscapeError holding at most three bytes from the %\<close>
  "QueryUnescape [] = Inr []"
| "QueryUnescape (c # cs) =
     (if c = CHR ''%'' then
        (case cs of
           h # l # rest \<Rightarrow>
             (case (hex_val h, hex_val l) of
                (Some a, Some b) \<Rightarrow>
                  (case QueryUnescape rest of
                     Inl e \<Rightarrow> Inl e
                   | Inr s \<Rightarrow> Inr (char_of (16 * a + b) # s))
              | _ \<Rightarrow> Inl (EscapeError (take 3 (c # cs))))
         | _ \<Rightarrow> Inl (EscapeError (take 3 (c # cs))))
      else
        (case QueryUnescape cs of
           Inl e \<Rightarrow> Inl e
         | Inr s \<Rightarrow> Inr ((if c = CHR ''+'' then CHR '' '' else c) # s)))"

definition URL_String :: "url \<Rightarrow> string" where
  \<comment> \<open>url.URL.String\<close>
  "URL_String u =
     (let path = (if Path u = ''*'' then ''*'' else escape (Path u) encodePath) in
      (if Scheme u \<noteq> [] then Scheme u @ '':'' else []) @
      (if (Scheme u \<noteq> [] \<or> Host u \<noteq> []) \<and> (Host u \<noteq> [] \<or> Path u \<noteq> []) then ''//'' else []) @
      (if Scheme u \<noteq> [] \<or> Host u \<noteq> [] then escape (Host u) encodeHost else []) @
      (if path \<noteq> [] \<and> hd path \<noteq> CHR ''/'' \<and> Host u \<noteq> [] then ''/'' else []) @
      (if Scheme u = [] \<and> Host u = [] \<and> CHR '':'' \<in> set (takeWhile (\<lambda>c. c \<noteq> CHR ''/'') path)
       then ''./'' else []) @
      path @
      (if RawQuery u \<noteq> [] then CHR ''?'' # RawQuery u else []))"

text \<open>
  url.Parse is a collaborator. On the plain URLs \<open>https://host/path\<close> (a non-empty host of
  lower-case letters, digits, dots and hyphens; a path that is empty or starts at the
  slash ending the host and has only unreserved characters and slashes) what it returns is
  written out here; on any other string it is the parameter \<open>parse_other\<close>.
\<close>

definition plain_https :: "string \<Rightarrow> bool" where
  "plain_https s =
     (take 8 s = ''https://'' \<and>
      (let rest = drop 8 s;
           host = takeWhile (\<lambda>c. c \<noteq> CHR ''/'') rest;
           path = dropWhile (\<lambda>c. c \<noteq> CHR ''/'') rest
       in host \<noteq> [] \<and>
          list_all (\<lambda>c. c \<in> set ''abcdefghijklmnopqrstuvwxyz0123456789.-'') host \<and>
          list_all (\<lambda>c. is_alnum c \<or> c \<in> set ''-_.~/'') path))"

definition url_Parse :: "(string \<Rightarrow> error + url) \<Rightarrow> string \<Rightarrow> error + url" where
  "url_Parse parse_other s =
     (if plain_https s then
        Inr \<lparr>Scheme = ''https'',
             Host = takeWhile (\<lambda>c. c \<noteq> CHR ''/'') (drop 8 s),
             Path = dropWhile (\<lambda>c. c \<noteq> CHR ''/'') (drop 8 s),
             RawQuery = []\<rparr>
      else parse_other s)"

subsection \<open>url.Values and http.Header\<close>

text \<open>A map from a key to its values, kept as a list in the order the keys were first added.\<close>

type_synonym Values = "(string \<times> string list) list"

definition Values_Get :: "Values \<Rightarrow> string \<Rightarrow> string" where
  \<comment> \<open>the first value of the key, or the empty string\<close>
  "Values_Get vs key = (case map_of vs key of None \<Rightarrow> [] | Some [] \<Rightarrow> [] | Some (v # _) \<Rightarrow> v)"

definition Values_Add :: "Values \<Rightarrow> string \<Rightarrow> string \<Rightarrow> Values" where
  "Values_Add vs key v =
     (case map_of vs key of
        None \<Rightarrow> vs @ [(key, [v])]
      | Some old \<Rightarrow> map (\<lambda>(k, xs). if k = key then (k, xs @ [v]) else (k, xs)) vs)"

fun bytes_less :: "string \<Rightarrow> string \<Rightarrow> bool" where
  \<comment> \<open>Go's < on strings\<close>
  "bytes_less _ [] = False"
| "bytes_less [] (_ # _) = True"
| "bytes_less (a # as) (b # bs) =
     ((of_char a :: nat) < of_char b \<or> (a = b \<and> bytes_less as bs))"

fun insert_key :: "string \<times> string list \<Rightarrow> Values \<Rightarrow> Values" where
  "insert_key kv [] = [kv]"
| "insert_key kv (x # xs) =
     (if bytes_less (fst x) (fst kv) then x # insert_key kv xs else kv # x # xs)"

definition sort_keys :: "Values \<Rightarrow> Values" where
  "sort_keys vs = foldr insert_key vs []"

definition Values_Encode :: "Values \<Rightarrow> string" where
  \<comment> \<open>url.Values.Encode: key=value pairs, escaped, joined by ampersands, sorted by key\<close>
  "Values_Encode vs =
     join CHR ''&'' (concat (map (\<lambda>(k, xs). map (\<lambda>v. QueryEscape k @ ''='' @ QueryEscape v) xs)
                         (sort_keys vs)))"

definition cut :: "char \<Rightarrow> string \<Rightarrow> string \<times> string" where
  \<comment> \<open>strings.Cut for a one-byte separator: before and after its first occurrence\<close>
  "cut sep s = (takeWhile (\<lambda>c. c \<noteq> sep) s, drop 1 (dropWhile (\<lambda>c. c \<noteq> sep) s))"

definition parse_pair :: "Values \<Rightarrow> string \<Rightarrow> Values" where
  \<comment> \<open>one round of the loop of url.ParseQuery: a piece with a semicolon, an empty piece and a
      piece with a malformed escape are skipped\<close>
  "parse_pair m piece =
     (if CHR '';'' \<in> set piece \<or> piece = [] then m
      else
        (case QueryUnescape (fst (cut CHR ''='' piece)) of
           Inl _ \<Rightarrow> m
         | Inr key \<Rightarrow>
             (case QueryUnescape (snd (cut CHR ''='' piece)) of
                Inl _ \<Rightarrow> m
              | Inr v \<Rightarrow> Values_Add m key v)))"

definition URL_Query :: "url \<Rightarrow> Values" where
  \<comment> \<open>url.URL.Query: ParseQuery of RawQuery, its error dropped (as of Go 1.17, where a
      semicolon is no separator)\<close>
  "URL_Query u = foldl parse_pair [] (split_on CHR ''&'' (RawQuery u))"

definition Header_Get :: "Values \<Rightarrow> string \<Rightarrow> string" where
  \<comment> \<open>http.Header.Get, for a key in canonical form\<close>
  "Header_Get h key = Values_Get h key"

definition Header_Add :: "Values \<Rightarrow> string \<Rightarrow> string \<Rightarrow> Values" where
  \<comment> \<open>http.Header.Add, for a key in canonical form (the two keys of this package are)\<close>
  "Header_Add h key v = Values_Add h key v"

definition Header_Values :: "Values \<Rightarrow> string \<Rightarrow> string list" where
  \<comment> \<open>http.Header.Values, for a key in canonical form: empty when the key is absent\<close>
  "Header_Values h key = (case map_of h key of None \<Rightarrow> [] | Some vs \<Rightarrow> vs)"

subsection \<open>Encoding Go values as JSON values (encoding/json)\<close>

text \<open>
  Fields are emitted in the order of the struct. A field tagged omitempty is left out when
  it is false, 0, the empty string or a slice of length 0; the tag has no effect on a
  struct. A nil slice without the tag is null.
\<close>

definition marshal_strings :: "string slice \<Rightarrow> json" where
  "marshal_strings s = (case s of NilSlice \<Rightarrow> JNull | Slice xs _ \<Rightarrow> JArray (map JString xs))"

definition marshal_createCollectionRequest :: "createCollectionRequest \<Rightarrow> json" where
  "marshal_createCollectionRequest r =
     JObject
       ((if View r = [] then [] else [(''view'', JString (View r))]) @
        (if Title r = [] then [] else [(''title'', JString (Title r))]) @
        (if Sort r = 0 then [] else [(''sort'', JNumber (Itoa (sint (Sort r))))]) @
        (if Public r then [(''public'', JBool True)] else []) @
        (if ParentId r = 0 then [] else [(''parent.$id'', JNumber (Itoa (uint (ParentId r))))]) @
        (if elems (Cover r) = [] then [] else [(''cover'', marshal_strings (Cover r))]))"

definition marshal_deleteTagsRequest :: "deleteTagsRequest \<Rightarrow> json" where
  "marshal_deleteTagsRequest r = JObject [(''tags'', marshal_strings (Tags r))]"

definition marshal_Collection :: "Collection \<Rightarrow> json" where
  "marshal_Collection r =
     JObject
       ([(''_id'', JNumber (Itoa (uint (ID r)))),
         (''access'',
            JObject [(''level'', JNumber (Itoa (sint (Level (Access r))))),
                     (''draggable'', JBool (Draggable (Access r)))]),
         (''color'', JString (Color r)),
         (''count'', JNumber (Itoa (uint (Count r)))),
         (''cover'', marshal_strings (Collection.Cover r)),
         (''created'', JString (Collection.Created r)),
         (''lastUpdate'', JString (Collection.LastUpdate r))] @
        (if Collection.ParentId r = 0 then []
         else [(''parent_id'', JNumber (Itoa (sint (Collection.ParentId r))))]) @
        [(''expanded'', JBool (Expanded r)),
         (''public'', JBool (Collection.Public r)),
         (''title'', JString (Collection.Title r)),
         (''user'', JObject [(''$id'', JNumber (Itoa (sint (Id (User r)))))]),
         (''view'', JString (Collection.View r))])"

definition marshal_Raindrop :: "Raindrop \<Rightarrow> json" where
  "marshal_Raindrop r =
     JObject
       ([(''pleaseParse'', JObject [])] @
        (if Raindrop.Created r = [] then [] else [(''created'', JString (Raindrop.Created r))]) @
        (if Raindrop.LastUpdate r = [] then []
         else [(''lastUpdate'', JString (Raindrop.LastUpdate r))]) @
        (if Order r = 0 then [] else [(''order'', JNumber (Itoa (sint (Order r))))]) @
        (if elems (Raindrop.Tags r) = [] then []
         else [(''tags'', marshal_strings (Raindrop.Tags r))]) @
        (if elems (Media r) = [] then []
         else [(''media'',
                  JArray (map (\<lambda>m. JObject [(''link'', JString (media.Link m))])
                            (elems (Media r))))]) @
        (if Raindrop.Cover r = [] then [] else [(''cover'', JString (Raindrop.Cover r))]) @
        [(''collection'', marshal_Collection (Collection r))] @
        (if Type r = [] then [] else [(''type'', JString (Type r))]) @
        (if HTML r = [] then [] else [(''html'', JString (HTML r))]) @
        (if Excerpt r = [] then [] else [(''excerpt'', JString (Excerpt r))]) @
        (if Raindrop.Title r = [] then [] else [(''title'', JString (Raindrop.Title r))]) @
        [(''link'', JString (Raindrop.Link r))])"

datatype payload =
    Body_createCollectionRequest createCollectionRequest
  | Body_Raindrop Raindrop
  | Body_deleteTagsRequest deleteTagsRequest

fun Encode :: "payload \<Rightarrow> json" where
  \<comment> \<open>json.NewEncoder(&b).Encode(body), by the type of body; it cannot fail on these types\<close>
  "Encode (Body_createCollectionRequest r) = marshal_createCollectionRequest r"
| "Encode (Body_Raindrop r) = marshal_Raindrop r"
| "Encode (Body_deleteTagsRequest r) = marshal_deleteTagsRequest r"

subsection \<open>Requests and the collaborators\<close>

datatype Context =
    Background     \<comment> \<open>context.Background()\<close>
  | Supplied nat   \<comment> \<open>a context of the caller\<close>

record request =
  Method :: string
  URL :: url
  Header :: Values
  Payload :: "json option"       \<comment> \<open>the JSON text in the body; None is the empty body\<close>
  Ctx :: Context
  Response :: "response option"  \<comment> \<open>set only on a request made by a client redirect\<close>

record collaborators =
  url_parse_other :: "string \<Rightarrow> error + url"
    \<comment> \<open>url.Parse outside the plain URLs\<close>
  httpClient_Do :: "request \<Rightarrow> error + response"
    \<comment> \<open>c.httpClient.Do: the transport\<close>
  http_Get :: "string \<Rightarrow> response option \<times> error option"
    \<comment> \<open>http.Get: the response, nil (None) when no response was obtained, and the error\<close>
  GetHtmlTitle :: "body \<Rightarrow> string \<times> bool"
    \<comment> \<open>the title extraction of this package, which is not in client.go\<close>

definition validMethod :: "string \<Rightarrow> bool" where
  \<comment> \<open>a non-empty run of HTTP token characters\<close>
  "validMethod m =
     (m \<noteq> [] \<and>
      list_all (\<lambda>c. is_alnum c \<or> c \<in> set ''!#$%&*+-.^_|~'' \<union> {CHR 0x27, CHR 0x60}) m)"

definition last_index :: "char \<Rightarrow> string \<Rightarrow> int" where
  \<comment> \<open>strings.LastIndex for one byte: -1 when it does not occur\<close>
  "last_index c s =
     (if c \<in> set s then int (length s) - 1 - int (length (takeWhile (\<lambda>d. d \<noteq> c) (rev s)))
      else - 1)"

definition removeEmptyPort :: "string \<Rightarrow> string" where
  "removeEmptyPort host =
     (if last_index CHR '':'' host > last_index CHR '']'' host \<and> host \<noteq> [] \<and> last host = CHR '':''
      then butlast host else host)"

definition NewRequestWithContext ::
  "collaborators \<Rightarrow> Context \<Rightarrow> string \<Rightarrow> string \<Rightarrow> json option \<Rightarrow> error + request" where
  \<comment> \<open>http.NewRequestWithContext for a non-nil context: the method is checked, the URL is
      parsed, an empty port is dropped from the host, the header map is empty\<close>
  "NewRequestWithContext lib ctx method u b =
     (let m = (if method = [] then ''GET'' else method) in
      if \<not> validMethod m then Inl (LibraryError ''net/http: invalid method'')
      else
        (case url_Parse (url_parse_other lib) u of
           Inl err \<Rightarrow> Inl err
         | Inr parsed \<Rightarrow>
             Inr \<lparr>Method = m, URL = parsed\<lparr>Host := removeEmptyPort (Host parsed)\<rparr>,
                  Header = [], Payload = b, Ctx = ctx, Response = None\<rparr>))"

definition NewRequest ::
  "collaborators \<Rightarrow> string \<Rightarrow> string \<Rightarrow> json option \<Rightarrow> error + request" where
  "NewRequest lib method u b = NewRequestWithContext lib Background method u b"

definition newRequest ::
  "collaborators \<Rightarrow> string \<Rightarrow> string \<Rightarrow> url \<Rightarrow> payload option \<Rightarrow> Context option
     \<Rightarrow> error + request" where
  "newRequest lib accessToken httpMethod fullUrl body ctx =
     (case QueryUnescape (URL_String fullUrl) of
        Inl err \<Rightarrow> Inl err
      | Inr u \<Rightarrow>
          (let b = (case body of None \<Rightarrow> None | Some x \<Rightarrow> Some (Encode x)) in
           case (case ctx of
                   Some cx \<Rightarrow> NewRequestWithContext lib cx httpMethod u b
                 | None \<Rightarrow> NewRequest lib httpMethod u b) of
             Inl err \<Rightarrow> Inl err
           | Inr req \<Rightarrow>
               (let req1 = req\<lparr>Header := Header_Add (Header req) ''Content-Type'' ''application/json''\<rparr>
                in Inr (if accessToken \<noteq> []
                        then req1\<lparr>Header := Header_Add (Header req1) ''Authorization''
                                               (''Bearer '' @ accessToken)\<rparr>
                        else req1))))"

subsection \<open>The client\<close>

definition apiHost :: string where "apiHost = ''https://api.raindrop.io''"
definition authHost :: string where "authHost = ''https://raindrop.io''"
definition endpointAuthorize :: string where "endpointAuthorize = ''/oauth/authorize''"
definition endpointCreateCollection :: string where
  "endpointCreateCollection = ''/rest/v1/collection''"
definition endpointRaindrop :: string where "endpointRaindrop = ''/rest/v1/raindrop''"
definition endpointRaindrops :: string where "endpointRaindrops = ''/rest/v1/raindrops/''"
definition endpointTags :: string where "endpointTags = ''/rest/v1/tags''"

text \<open>
  The client holds its two base URLs by pointer (*url.URL). The URL objects live in a
  store, a list indexed by address; a pointer is an address or nil (None).
\<close>

type_synonym heap = "url list"

record Client =
  apiURL :: "nat option"
  authURL :: "nat option"
  clientId :: string
  clientSecret :: string
  redirectUri :: string
  ClientCode :: string

definition load :: "heap \<Rightarrow> nat option \<Rightarrow> url option" where
  "load h p = (case p of None \<Rightarrow> None | Some a \<Rightarrow> if a < length h then Some (h ! a) else None)"

definition store :: "heap \<Rightarrow> nat \<Rightarrow> url \<Rightarrow> heap" where
  "store h a u = h[a := u]"

definition NewClient ::
  "collaborators \<Rightarrow> heap \<Rightarrow> string \<Rightarrow> string \<Rightarrow> string \<Rightarrow> error + Client \<times> heap" where
  \<comment> \<open>the two parsed URLs are allocated at fresh addresses; the HTTP client with its
      timeout and transport belongs to the collaborators\<close>
  "NewClient lib h clientId' clientSecret' redirectUri' =
     (case url_Parse (url_parse_other lib) authHost of
        Inl err \<Rightarrow> Inl err
      | Inr auth \<Rightarrow>
          (case url_Parse (url_parse_other lib) apiHost of
             Inl err \<Rightarrow> Inl err
           | Inr api \<Rightarrow>
               Inr (\<lparr>apiURL = Some (Suc (length h)), authURL = Some (length h),
                     clientId = clientId', clientSecret = clientSecret',
                     redirectUri = redirectUri', ClientCode = []\<rparr>,
                    h @ [auth, api])))"

definition CreateCollection_request ::
  "collaborators \<Rightarrow> heap \<Rightarrow> Client \<Rightarrow> string \<Rightarrow> bool \<Rightarrow> string \<Rightarrow> string \<Rightarrow> 64 word \<Rightarrow> bool
     \<Rightarrow> 32 word \<Rightarrow> string slice \<Rightarrow> Context option \<Rightarrow> (error + request) outcome" where
  \<comment> \<open>CreateCollection up to the request it hands to the transport\<close>
  "CreateCollection_request lib h c accessToken isRoot view title sort' public parentId cover ctx =
     (case load h (apiURL c) of
        None \<Rightarrow> Panics NilPointerDereference
      | Some u \<Rightarrow>
          (let fullUrl = u\<lparr>Path := Join [endpointCreateCollection]\<rparr>;
               collection =
                 (if isRoot then
                    \<lparr>View = view, Title = title, Sort = sort', Public = public,
                     ParentId = 0, Cover = cover\<rparr>
                  else
                    \<lparr>View = view, Title = title, Sort = sort', Public = public,
                     ParentId = parentId, Cover = cover\<rparr>)
           in Returns (newRequest lib accessToken ''POST'' fullUrl
                         (Some (Body_createCollectionRequest collection)) ctx)))"

definition CreateCollection ::
  "collaborators \<Rightarrow> heap \<Rightarrow> Client \<Rightarrow> string \<Rightarrow> bool \<Rightarrow> string \<Rightarrow> string \<Rightarrow> 64 word \<Rightarrow> bool
     \<Rightarrow> 32 word \<Rightarrow> string slice \<Rightarrow> Context option
     \<Rightarrow> (error + CreateCollectionResponse option) outcome" where
  "CreateCollection lib h c accessToken isRoot view title sort' public parentId cover ctx =
     (case CreateCollection_request lib h c accessToken isRoot view title sort' public parentId
             cover ctx of
        Panics p \<Rightarrow> Panics p
      | Returns (Inl err) \<Rightarrow> Returns (Inl err)
      | Returns (Inr request) \<Rightarrow>
          (case httpClient_Do lib request of
             Inl err \<Rightarrow> Returns (Inl err)
           | Inr response \<Rightarrow> parseResponse response 200 Unmarshal_CreateCollectionResponse))"

definition CreateSimpleRaindrop_request ::
  "collaborators \<Rightarrow> heap \<Rightarrow> Client \<Rightarrow> string \<Rightarrow> string \<Rightarrow> Context option
     \<Rightarrow> (error + request) outcome" where
  \<comment> \<open>CreateSimpleRaindrop up to the request it hands to the transport. The error of
      http.Get is dropped; resp.Body is read from whatever resp is, so a nil resp is a nil
      pointer dereference.\<close>
  "CreateSimpleRaindrop_request lib h c accessToken link ctx =
     (case load h (apiURL c) of
        None \<Rightarrow> Panics NilPointerDereference
      | Some u \<Rightarrow>
          (let fullUrl = u\<lparr>Path := Join [endpointRaindrop]\<rparr>;
               resp = fst (http_Get lib link)
           in case resp of
                None \<Rightarrow> Panics NilPointerDereference
              | Some r \<Rightarrow>
                  (let title = (case GetHtmlTitle lib (Body r) of
                                  (val, ok) \<Rightarrow> if ok then val else ''Fail to get HTML title'');
                       raindrop = zero_Raindrop\<lparr>PleaseParse := pleaseParse,
                                                Raindrop.Title := title, Raindrop.Link := link\<rparr>
                   in Returns (newRequest lib accessToken ''POST'' fullUrl
                                 (Some (Body_Raindrop raindrop)) ctx))))"

definition CreateSimpleRaindrop ::
  "collaborators \<Rightarrow> heap \<Rightarrow> Client \<Rightarrow> string \<Rightarrow> string \<Rightarrow> Context option
     \<Rightarrow> (error + SingleRaindropResponse option) outcome" where
  "CreateSimpleRaindrop lib h c accessToken link ctx =
     (case CreateSimpleRaindrop_request lib h c accessToken link ctx of
        Panics p \<Rightarrow> Panics p
      | Returns (Inl err) \<Rightarrow> Returns (Inl err)
      | Returns (Inr request) \<Rightarrow>
          (case httpClient_Do lib request of
             Inl err \<Rightarrow> Returns (Inl err)
           | Inr response \<Rightarrow> parseResponse response 200 Unmarshal_SingleRaindropResponse))"

definition DeleteTags_request ::
  "collaborators \<Rightarrow> heap \<Rightarrow> Client \<Rightarrow> string \<Rightarrow> Context option \<Rightarrow> string slice
     \<Rightarrow> (error + request) outcome" where
  \<comment> \<open>DeleteTags up to the request it hands to the transport\<close>
  "DeleteTags_request lib h c accessToken ctx tagIDs =
     (case load h (apiURL c) of
        None \<Rightarrow> Panics NilPointerDereference
      | Some u0 \<Rightarrow>
          (let u = u0\<lparr>Path := Join [Path u0, endpointTags]\<rparr>;
               body = \<lparr>Tags = tagIDs\<rparr>
           in Returns (newRequest lib accessToken ''DELETE'' u
                         (Some (Body_deleteTagsRequest body)) ctx)))"

definition DeleteTags ::
  "collaborators \<Rightarrow> heap \<Rightarrow> Client \<Rightarrow> string \<Rightarrow> Context option \<Rightarrow> string slice
     \<Rightarrow> error option outcome" where
  \<comment> \<open>the result is the error, None for nil; the decoded record r is dropped\<close>
  "DeleteTags lib h c accessToken ctx tagIDs =
     (case DeleteTags_request lib h c accessToken ctx tagIDs of
        Panics p \<Rightarrow> Panics p
      | Returns (Inl err) \<Rightarrow> Returns (Some err)
      | Returns (Inr request) \<Rightarrow>
          (case httpClient_Do lib request of
             Inl err \<Rightarrow> Returns (Some err)
           | Inr response \<Rightarrow>
               (case parseResponse response 200 Unmarshal_DeleteTagsResponse of
                  Panics p \<Rightarrow> Panics p
                | Returns (Inl err) \<Rightarrow> Returns (Some err)
                | Returns (Inr r) \<Rightarrow> Returns None)))"

definition createSingleSearchParameter :: "string \<Rightarrow> string \<Rightarrow> string" where
  \<comment> \<open>fmt.Sprintf with two %s verbs\<close>
  \<open>createSingleSearchParameter k v = ''[{"key":"'' @ k @ ''","val":"'' @ v @ ''"}]''\<close>

definition GetTaggedRaindrops_request ::
  "collaborators \<Rightarrow> heap \<Rightarrow> Client \<Rightarrow> string \<Rightarrow> string \<Rightarrow> Context option
     \<Rightarrow> (error + request) outcome" where
  \<comment> \<open>GetTaggedRaindrops up to the request it hands to the transport\<close>
  "GetTaggedRaindrops_request lib h c accessToken tag ctx =
     (case load h (apiURL c) of
        None \<Rightarrow> Panics NilPointerDereference
      | Some u0 \<Rightarrow>
          (let u = u0\<lparr>Path := Join [Path u0, endpointRaindrops @ ''0'']\<rparr> in
           case newRequest lib accessToken ''GET'' u None ctx of
             Inl err \<Rightarrow> Returns (Inl err)
           | Inr request \<Rightarrow>
               (let params = URL_Query (URL request);
                    searchParameter = createSingleSearchParameter ''tag'' tag;
                    params' = Values_Add params ''search'' searchParameter
                in Returns (Inr (request\<lparr>URL := (URL request)\<lparr>RawQuery := Values_Encode params'\<rparr>\<rparr>)))))"

definition GetTaggedRaindrops ::
  "collaborators \<Rightarrow> heap \<Rightarrow> Client \<Rightarrow> string \<Rightarrow> string \<Rightarrow> Context option
     \<Rightarrow> (error + MultiRaindropsResponse option) outcome" where
  "GetTaggedRaindrops lib h c accessToken tag ctx =
     (case GetTaggedRaindrops_request lib h c accessToken tag ctx of
        Panics p \<Rightarrow> Panics p
      | Returns (Inl err) \<Rightarrow> Returns (Inl err)
      | Returns (Inr request) \<Rightarrow>
          (case httpClient_Do lib request of
             Inl err \<Rightarrow> Returns (Inl err)
           | Inr response \<Rightarrow> parseResponse response 200 Unmarshal_MultiRaindropsResponse))"

definition GetAuthorizationURL :: "heap \<Rightarrow> Client \<Rightarrow> (url \<times> heap) outcome" where
  \<comment> \<open>u := c.authURL copies the pointer, so the assignment to u.Path writes to the URL object
      of the client; the result is that object's value, with a nil error, and the store\<close>
  "GetAuthorizationURL h c =
     (case authURL c of
        None \<Rightarrow> Panics NilPointerDereference
      | Some a \<Rightarrow>
          (case load h (Some a) of
             None \<Rightarrow> Panics NilPointerDereference
           | Some u \<Rightarrow>
               (let uri = endpointAuthorize @ ''?client_id='' @ clientId c @ ''&redirect_uri='' @
                          redirectUri c;
                    h' = store h a (u\<lparr>Path := Join [uri]\<rparr>)
                in case load h' (Some a) of
                     None \<Rightarrow> Panics NilPointerDereference
                   | Some u' \<Rightarrow> Returns (u', h'))))"

definition GetAuthorizationCode :: "request \<Rightarrow> (error + string) outcome" where
  "GetAuthorizationCode r =
     (let code = Values_Get (URL_Query (URL r)) ''code'';
          authErr = Values_Get (URL_Query (URL r)) ''error''
      in if code = [] \<and> authErr \<noteq> [] then
           Returns (Inl (ErrorString (''Can't get authorization code: '' @ authErr)))
         else if code = [] then
           (case Response r of
              None \<Rightarrow> Panics NilPointerDereference
            | Some resp \<Rightarrow>
                Returns (Inl (ErrorString (''Can't get authorization code: '' @
                                           Itoa (StatusCode resp)))))
         else Returns (Inr code))"

subsection \<open>Documents that fit the response records\<close>

text \<open>
  A JSON value fits a Go type when the decoder stores it without a type error: null fits
  every type here, otherwise the kind has to be the type's, and a number has to be in the
  range of the integer type. A member whose key addresses no field fits.
\<close>

definition fits_bool :: "json \<Rightarrow> bool" where
  "fits_bool v = (case v of JNull \<Rightarrow> True | JBool _ \<Rightarrow> True | _ \<Rightarrow> False)"









definition fits_DeleteTagsResponse :: "json \<Rightarrow> bool" where
  \<comment> \<open>a JSON value that decodes into a DeleteTagsResponse\<close>
  "fits_DeleteTagsResponse v =
     (case v of
        JNull \<Rightarrow> True
      | JObject ms \<Rightarrow>
          list_all (\<lambda>m. case struct_field [''result''] (fst m) of
                           None \<Rightarrow> True
                         | Some f \<Rightarrow> fits_bool (snd m)) ms
      | _ \<Rightarrow> False)"

definition configuration ::
  "heap \<Rightarrow> Client \<Rightarrow> string \<times> string \<times> string \<times> url option \<times> url option" where
  \<comment> \<open>the client configuration: identifier, secret, redirect URI, and the two base URLs the
      client's pointers lead to\<close>
  "configuration h c =
     (clientId c, clientSecret c, redirectUri c, load h (authURL c), load h (apiURL c))"

subsection \<open>Sample collaborators and a sample client\<close>

definition answering :: "response \<Rightarrow> collaborators" where
  \<comment> \<open>a transport that answers every request with the given response, while fetching a page
      fails and no page has a title\<close>
  "answering resp =
     \<lparr>url_parse_other = (\<lambda>s. Inl (LibraryError ''parse '' )),
      httpClient_Do = (\<lambda>req. Inr resp),
      http_Get = (\<lambda>link. (None, Some (LibraryError ''unsupported protocol scheme''))),
      GetHtmlTitle = (\<lambda>b. ([], False))\<rparr>"

definition ok_empty :: response where
  "ok_empty = \<lparr>StatusCode = 200, Body = Readable (Valid (JObject []))\<rparr>"

definition sample_heap :: heap where
  "sample_heap =
     [\<lparr>Scheme = ''https'', Host = ''raindrop.io'', Path = [], RawQuery = []\<rparr>,
      \<lparr>Scheme = ''https'', Host = ''api.raindrop.io'', Path = [], RawQuery = []\<rparr>]"

definition sample_client :: Client where
  \<comment> \<open>what NewClient returns for these three strings on the empty store, with \<open>sample_heap\<close>\<close>
  "sample_client =
     \<lparr>apiURL = Some 1, authURL = Some 0, clientId = ''my-id'', clientSecret = ''my-secret'',
      redirectUri = ''https://example.com/cb'', ClientCode = []\<rparr>"

definition inbound :: "string \<Rightarrow> request" where
  \<comment> \<open>a request a server receives for the redirect URI with this raw query\<close>
  "inbound q =
     \<lparr>Method = ''GET'', URL = \<lparr>Scheme = [], Host = [], Path = ''/cb'', RawQuery = q\<rparr>,
      Header = [], Payload = None, Ctx = Background, Response = None\<rparr>"

section \<open>Properties\<close>

subsection \<open>Auxiliary facts about strconv\<close>

lemma digit_char:
  assumes "k < 10"
  shows "is_digit (''0123456789'' ! k) \<and> digit_val (''0123456789'' ! k) = k"
proof -
  from assms have "k = 0 \<or> k = 1 \<or> k = 2 \<or> k = 3 \<or> k = 4 \<or> k = 5 \<or> k = 6 \<or> k = 7 \<or> k = 8 \<or> k = 9"
    by arith
  then show ?thesis
    by (elim disjE) (simp_all add: is_digit_def digit_val_def)
qed

lemma digits_all_digits: "list_all is_digit (digits n)"
proof (induction n rule: digits.induct)
  case (1 n)
  show ?case
  proof (cases "n < 10")
    case True
    then show ?thesis by (subst digits.simps) (simp add: digit_char)
  next
    case False
    with 1 have "list_all is_digit (digits (n div 10))" by simp
    moreover have "is_digit (''0123456789'' ! (n mod 10))" by (simp add: digit_char)
    ultimately show ?thesis using False by (subst digits.simps) simp
  qed
qed

lemma digits_not_empty: "digits n \<noteq> []"
  by (subst digits.simps) simp

lemma digits_value: "foldl (\<lambda>n c. 10 * n + digit_val c) 0 (digits n) = n"
proof (induction n rule: digits.induct)
  case (1 n)
  show ?case
  proof (cases "n < 10")
    case True
    then show ?thesis by (subst digits.simps) (simp add: digit_char)
  next
    case False
    with 1 have "foldl (\<lambda>n c. 10 * n + digit_val c) 0 (digits (n div 10)) = n div 10" by simp
    moreover have "digit_val (''0123456789'' ! (n mod 10)) = n mod 10" by (simp add: digit_char)
    ultimately show ?thesis using False by (subst digits.simps) simp
  qed
qed

lemma decimal_digits: "decimal (digits n) = Some n"
  by (simp add: decimal_def digits_not_empty digits_all_digits digits_value)

lemma ParseUint32_Itoa: "ParseUint32 (Itoa (uint (p :: 32 word))) = Some (unat p)"
proof -
  have "unat p < 2 ^ 32" using unsigned_less [of p] by simp
  then show ?thesis
    by (simp add: ParseUint32_def Itoa_def decimal_digits)
qed

lemma digits_inj:
  assumes "digits a = digits b"
  shows "a = b"
proof -
  have "Some a = decimal (digits a)" by (simp add: decimal_digits)
  also have "\<dots> = decimal (digits b)" by (simp only: assms)
  also have "\<dots> = Some b" by (simp add: decimal_digits)
  finally show ?thesis by simp
qed

lemma digits_no_sign: "hd (digits n) \<noteq> CHR ''-''"
proof -
  have "is_digit (hd (digits n))"
    using digits_all_digits [of n] digits_not_empty [of n]
    by (cases "digits n") simp_all
  then show ?thesis by (auto simp add: is_digit_def)
qed

lemma digits_not_signed: "CHR ''-'' # xs \<noteq> digits n"
  using digits_no_sign [of n] by (cases "digits n") auto

lemma Itoa_inj:
  assumes "Itoa i = Itoa j"
  shows "i = j"
proof -
  consider "i < 0" "j < 0" | "i < 0" "\<not> j < 0" | "\<not> i < 0" "j < 0" | "\<not> i < 0" "\<not> j < 0"
    by blast
  then show ?thesis
  proof cases
    case 1
    with assms have "digits (nat (- i)) = digits (nat (- j))" by (simp add: Itoa_def)
    then have "nat (- i) = nat (- j)" by (rule digits_inj)
    with 1 show ?thesis by simp
  next
    case 2
    with assms have "CHR ''-'' # digits (nat (- i)) = digits (nat j)" by (simp add: Itoa_def)
    then show ?thesis using digits_not_signed by blast
  next
    case 3
    with assms have "CHR ''-'' # digits (nat (- j)) = digits (nat i)" by (simp add: Itoa_def)
    then show ?thesis using digits_not_signed by blast
  next
    case 4
    with assms have "digits (nat i) = digits (nat j)" by (simp add: Itoa_def)
    then have "nat i = nat j" by (rule digits_inj)
    with 4 show ?thesis by simp
  qed
qed

lemma status_mismatch_inj: "status_mismatch c = status_mismatch d \<Longrightarrow> c = d"
  by (auto simp add: status_mismatch_def dest: Itoa_inj)


subsection \<open>Auxiliary facts about the decoder\<close>

lemma isl_map_sum_id: "isl (map_sum f g s) = isl s"
  by (cases s) simp_all






















subsection \<open>Response parsing\<close>

text \<open>
  C6. For every response whose status code is neither the expected one nor 400,
  parseResponse returns the status-mismatch error that carries the observed code. The
  result is the same for every body (readable or not, JSON or not) and every target, so
  nothing is read or decoded. The error is the message "unexpected Status Code: " followed
  by the code in decimal, and no other code gives the same error.
\<close>

theorem parseResponse_unexpected_status:
  assumes "StatusCode r \<noteq> expected" and "StatusCode r \<noteq> 400"
  shows "parseResponse r expected unmarshal = Returns (Inl (status_mismatch (StatusCode r))) \<and>
         status_mismatch (StatusCode r) =
           ErrorString (''unexpected Status Code: '' @ Itoa (StatusCode r)) \<and>
         (\<forall>code. status_mismatch code = status_mismatch (StatusCode r) \<longrightarrow> code = StatusCode r)"
  using assms by (auto simp add: parseResponse_def status_mismatch_def dest: Itoa_inj)

theorem parseResponse_unexpected_status_witness:
  "parseResponse \<lparr>StatusCode = 404, Body = Unreadable (LibraryError ''unexpected EOF'')\<rparr> 200
     Unmarshal_DeleteTagsResponse =
   Returns (Inl (ErrorString ''unexpected Status Code: 404''))"
  using parseResponse_unexpected_status
    [of "\<lparr>StatusCode = 404, Body = Unreadable (LibraryError ''unexpected EOF'')\<rparr>" 200
        Unmarshal_DeleteTagsResponse]
  by (simp add: status_mismatch_def Itoa_def digits.simps)

text \<open>
  C3, as the claim states it, fails: with an accepted status and a body that cannot be
  read, parseResponse does not return an error, it panics with the read error.
\<close>

theorem parseResponse_unreadable_counterexample:
  "parseResponse \<lparr>StatusCode = 200, Body = Unreadable (LibraryError ''unexpected EOF'')\<rparr> 200
     Unmarshal_CreateCollectionResponse =
   Panics (PanicError (LibraryError ''unexpected EOF''))"
  by (simp add: parseResponse_def ReadAll_def)

text \<open>
  C3, amended. For every response whose status code is accepted (the expected one or 400):
  when reading the body fails, parseResponse panics with the read error and returns
  nothing; when the body is read and is not a JSON text, parseResponse returns the
  decoder's syntax error, which is no status-mismatch error.
\<close>

theorem parseResponse_read_and_syntax_failures:
  assumes "StatusCode r = expected \<or> StatusCode r = 400"
  shows "(Body r = Unreadable err \<longrightarrow>
            parseResponse r expected unmarshal = Panics (PanicError err)) \<and>
         (Body r = Readable (Invalid msg) \<longrightarrow>
            parseResponse r expected (\<lambda>bytes. Unmarshal set_field ty bytes old) =
              Returns (Inl (SyntaxError msg)) \<and>
            SyntaxError msg \<noteq> status_mismatch code)"
  using assms by (auto simp add: parseResponse_def ReadAll_def Unmarshal_def status_mismatch_def)

theorem parseResponse_read_and_syntax_failures_witness:
  "parseResponse \<lparr>StatusCode = 400, Body = Unreadable (LibraryError ''connection reset'')\<rparr> 200
     Unmarshal_DeleteTagsResponse =
   Panics (PanicError (LibraryError ''connection reset'')) \<and>
   parseResponse \<lparr>StatusCode = 200, Body = Readable (Invalid ''unexpected end of JSON input'')\<rparr>
     200 Unmarshal_DeleteTagsResponse =
   Returns (Inl (SyntaxError ''unexpected end of JSON input''))"
  using
    parseResponse_read_and_syntax_failures
      [of "\<lparr>StatusCode = 400, Body = Unreadable (LibraryError ''connection reset'')\<rparr>" 200
          "LibraryError ''connection reset''" Unmarshal_DeleteTagsResponse]
    parseResponse_read_and_syntax_failures
      [of "\<lparr>StatusCode = 200, Body = Readable (Invalid ''unexpected end of JSON input'')\<rparr>"
          200 _ _ "''unexpected end of JSON input''" set_DeleteTagsResponse
          "''raindrop.DeleteTagsResponse''" new_DeleteTagsResponse]
  by (simp add: Unmarshal_DeleteTagsResponse_def [abs_def])















subsection \<open>Tag deletion\<close>

lemma set_DeleteTagsResponse_isl:
  "isl (set_DeleteTagsResponse r k v) =
     (case struct_field [''result''] k of None \<Rightarrow> False | Some f \<Rightarrow> \<not> fits_bool v)"
  by (cases "struct_field [''result''] k"; cases v)
     (simp_all add: set_DeleteTagsResponse_def isl_map_sum_id store_bool_def fits_bool_def)

lemma store_members_isl:
  assumes "\<And>r k v. isl (set_field r k v) = bad (k, v)"
  shows "isl (store_members set_field r ms) = (\<exists>m \<in> set ms. bad m)"
proof (induction ms arbitrary: r)
  case Nil
  then show ?case by simp
next
  case (Cons m ms)
  obtain k v where m: "m = (k, v)" by (cases m)
  show ?case
  proof (cases "set_field r k v")
    case (Inl e)
    then have "bad (k, v)" using assms [of r k v] by simp
    with Inl m show ?thesis by simp
  next
    case (Inr r1)
    then have "\<not> bad (k, v)" using assms [of r k v] by simp
    with Inr m Cons.IH [of r1] show ?thesis by simp
  qed
qed

lemma Unmarshal_DeleteTagsResponse_isl:
  "isl (Unmarshal_DeleteTagsResponse (Valid doc)) = (\<not> fits_DeleteTagsResponse doc)"
proof (cases doc)
  case (JObject ms)
  have "isl (store_members set_DeleteTagsResponse new_DeleteTagsResponse ms) =
          (\<exists>m \<in> set ms. case struct_field [''result''] (fst m) of
                             None \<Rightarrow> False | Some f \<Rightarrow> \<not> fits_bool (snd m))"
    by (rule store_members_isl
          [where bad = "\<lambda>m. case struct_field [''result''] (fst m) of
                              None \<Rightarrow> False | Some f \<Rightarrow> \<not> fits_bool (snd m)"])
       (simp add: set_DeleteTagsResponse_isl split: option.splits)
  with JObject show ?thesis
    by (auto simp add: Unmarshal_DeleteTagsResponse_def Unmarshal_def store_struct_def
          isl_map_sum_id fits_DeleteTagsResponse_def list_all_iff split: option.splits)
qed (simp_all add: Unmarshal_DeleteTagsResponse_def Unmarshal_def store_struct_def
       fits_DeleteTagsResponse_def)

lemma sample_DeleteTags_request:
  "DeleteTags_request (answering resp) sample_heap sample_client ''tok'' None (Slice [''old''] []) =
   Returns (Inr \<lparr>Method = ''DELETE'',
                 URL = \<lparr>Scheme = ''https'', Host = ''api.raindrop.io'', Path = ''/rest/v1/tags'',
                        RawQuery = []\<rparr>,
                 Header = [(''Content-Type'', [''application/json'']),
                           (''Authorization'', [''Bearer tok''])],
                 Payload = Some (JObject [(''tags'', JArray [JString ''old''])]),
                 Ctx = Background, Response = None\<rparr>)"
  by code_simp

lemma answering_Do: "httpClient_Do (answering resp) req = Inr resp"
  by (simp add: answering_def)


text \<open>
  C10, as the claim states it, fails: a body that is valid JSON of the wrong shape (here the
  empty array) with status 200 makes DeleteTags return the decoder's type error.
\<close>

theorem DeleteTags_type_mismatch_counterexample:
  "DeleteTags (answering \<lparr>StatusCode = 200, Body = Readable (Valid (JArray []))\<rparr>)
     sample_heap sample_client ''tok'' None (Slice [''old''] []) =
   Returns (Some (UnmarshalTypeError ''array'' ''raindrop.DeleteTagsResponse''))"
  by code_simp


text \<open>
  C10, amended. For every list of tag names: when the request is built, the transport
  answers with an accepted status (200 or 400) and the body is a JSON text, DeleteTags
  returns a nil error exactly when the JSON value decodes into a DeleteTagsResponse (null,
  or an object whose members addressing the result field hold a boolean or null). The
  value of the result flag plays no part: result:false and result:true both end in a nil
  error.
\<close>

theorem DeleteTags_discards_result:
  assumes "DeleteTags_request lib h c accessToken ctx tagIDs = Returns (Inr request)"
    and "httpClient_Do lib request = Inr response"
    and "StatusCode response = 200 \<or> StatusCode response = 400"
    and "Body response = Readable (Valid doc)"
  shows "(DeleteTags lib h c accessToken ctx tagIDs = Returns None) = fits_DeleteTagsResponse doc"
proof (cases "Unmarshal_DeleteTagsResponse (Valid doc)")
  case (Inl e)
  then have "\<not> fits_DeleteTagsResponse doc"
    using Unmarshal_DeleteTagsResponse_isl [of doc] by simp
  with assms Inl show ?thesis
    by (auto simp add: DeleteTags_def parseResponse_def ReadAll_def)
next
  case (Inr res)
  then have "fits_DeleteTagsResponse doc"
    using Unmarshal_DeleteTagsResponse_isl [of doc] by simp
  with assms Inr show ?thesis
    by (auto simp add: DeleteTags_def parseResponse_def ReadAll_def)
qed


theorem DeleteTags_discards_result_witness:
  "DeleteTags (answering \<lparr>StatusCode = 200,
                           Body = Readable (Valid (JObject [(''result'', JBool False)]))\<rparr>)
     sample_heap sample_client ''tok'' None (Slice [''old''] []) = Returns None \<and>
   DeleteTags (answering \<lparr>StatusCode = 400,
                           Body = Readable (Valid (JObject [(''result'', JBool True)]))\<rparr>)
     sample_heap sample_client ''tok'' None (Slice [''old''] []) = Returns None"
proof -
  have fits: "fits_DeleteTagsResponse (JObject [(''result'', JBool b)])" for b
    by (simp add: fits_DeleteTagsResponse_def struct_field_def fits_bool_def)
  have "(DeleteTags (answering \<lparr>StatusCode = 200,
                                  Body = Readable (Valid (JObject [(''result'', JBool False)]))\<rparr>)
           sample_heap sample_client ''tok'' None (Slice [''old''] []) = Returns None) =
        fits_DeleteTagsResponse (JObject [(''result'', JBool False)])"
    by (rule DeleteTags_discards_result [OF sample_DeleteTags_request answering_Do]) simp_all
  moreover
  have "(DeleteTags (answering \<lparr>StatusCode = 400,
                                  Body = Readable (Valid (JObject [(''result'', JBool True)]))\<rparr>)
           sample_heap sample_client ''tok'' None (Slice [''old''] []) = Returns None) =
        fits_DeleteTagsResponse (JObject [(''result'', JBool True)])"
    by (rule DeleteTags_discards_result [OF sample_DeleteTags_request answering_Do]) simp_all
  ultimately show ?thesis by (simp only: fits simp_thms)
qed

subsection \<open>Request building\<close>

lemma NewRequestWithContext_Header:
  "NewRequestWithContext lib cx m u b = Inr req \<Longrightarrow> Header req = []"
  by (auto simp add: NewRequestWithContext_def Let_def split: if_splits sum.splits)

lemma newRequest_Header:
  assumes "newRequest lib accessToken httpMethod fullUrl body ctx = Inr req"
  shows "Header req =
           (''Content-Type'', [''application/json'']) #
           (if accessToken = [] then [] else [(''Authorization'', [''Bearer '' @ accessToken])])"
  using assms
  by (auto simp add: newRequest_def NewRequest_def Let_def Header_Add_def Values_Add_def
        split: sum.splits option.splits if_splits dest!: NewRequestWithContext_Header)

text \<open>
  C7. For every token, method, URL, body and context, a request that newRequest builds has
  the header Content-Type: application/json; it has an Authorization header exactly when
  the token is not empty, and that header is then Bearer followed by the token.
\<close>

theorem newRequest_headers:
  assumes "newRequest lib accessToken httpMethod fullUrl body ctx = Inr req"
  shows "Header_Values (Header req) ''Content-Type'' = [''application/json''] \<and>
         Header_Get (Header req) ''Content-Type'' = ''application/json'' \<and>
         (Header_Values (Header req) ''Authorization'' \<noteq> [] \<longleftrightarrow> accessToken \<noteq> []) \<and>
         Header_Get (Header req) ''Authorization'' =
           (if accessToken = [] then [] else ''Bearer '' @ accessToken)"
  by (simp add: newRequest_Header [OF assms] Header_Values_def Header_Get_def Values_Get_def)

theorem newRequest_headers_witness:
  "newRequest (answering ok_empty) ''tok1'' ''GET''
     \<lparr>Scheme = ''https'', Host = ''api.raindrop.io'', Path = ''/rest/v1/tags'', RawQuery = []\<rparr>
     None None =
   Inr \<lparr>Method = ''GET'',
        URL = \<lparr>Scheme = ''https'', Host = ''api.raindrop.io'', Path = ''/rest/v1/tags'',
               RawQuery = []\<rparr>,
        Header = [(''Content-Type'', [''application/json'']),
                  (''Authorization'', [''Bearer tok1''])],
        Payload = None, Ctx = Background, Response = None\<rparr> \<and>
   Header_Get [(''Content-Type'', [''application/json'']), (''Authorization'', [''Bearer tok1''])]
     ''Authorization'' = ''Bearer tok1'' \<and>
   newRequest (answering ok_empty) [] ''POST''
     \<lparr>Scheme = ''https'', Host = ''raindrop.io'', Path = ''/oauth/access_token'', RawQuery = []\<rparr>
     (Some (Body_deleteTagsRequest \<lparr>Tags = NilSlice\<rparr>)) (Some (Supplied 7)) =
   Inr \<lparr>Method = ''POST'',
        URL = \<lparr>Scheme = ''https'', Host = ''raindrop.io'', Path = ''/oauth/access_token'',
               RawQuery = []\<rparr>,
        Header = [(''Content-Type'', [''application/json''])],
        Payload = Some (JObject [(''tags'', JNull)]), Ctx = Supplied 7, Response = None\<rparr> \<and>
   Header_Values [(''Content-Type'', [''application/json''])] ''Authorization'' = []"
proof -
  have with_token:
    "newRequest (answering ok_empty) ''tok1'' ''GET''
       \<lparr>Scheme = ''https'', Host = ''api.raindrop.io'', Path = ''/rest/v1/tags'', RawQuery = []\<rparr>
       None None =
     Inr \<lparr>Method = ''GET'',
          URL = \<lparr>Scheme = ''https'', Host = ''api.raindrop.io'', Path = ''/rest/v1/tags'',
                 RawQuery = []\<rparr>,
          Header = [(''Content-Type'', [''application/json'']),
                    (''Authorization'', [''Bearer tok1''])],
          Payload = None, Ctx = Background, Response = None\<rparr>"
    by code_simp
  have without_token:
    "newRequest (answering ok_empty) [] ''POST''
       \<lparr>Scheme = ''https'', Host = ''raindrop.io'', Path = ''/oauth/access_token'', RawQuery = []\<rparr>
       (Some (Body_deleteTagsRequest \<lparr>Tags = NilSlice\<rparr>)) (Some (Supplied 7)) =
     Inr \<lparr>Method = ''POST'',
          URL = \<lparr>Scheme = ''https'', Host = ''raindrop.io'', Path = ''/oauth/access_token'',
                 RawQuery = []\<rparr>,
          Header = [(''Content-Type'', [''application/json''])],
          Payload = Some (JObject [(''tags'', JNull)]), Ctx = Supplied 7, Response = None\<rparr>"
    by code_simp
  from newRequest_headers [OF with_token] newRequest_headers [OF without_token]
    with_token without_token
  show ?thesis by simp
qed

subsection \<open>Collection creation\<close>

lemma newRequest_Payload:
  assumes "newRequest lib accessToken httpMethod fullUrl body ctx = Inr req"
  shows "Payload req = (case body of None \<Rightarrow> None | Some x \<Rightarrow> Some (Encode x))"
  using assms
  by (auto simp add: newRequest_def NewRequest_def NewRequestWithContext_def Let_def
        split: sum.splits option.splits if_splits)

lemma parent_member:
  "marshal_createCollectionRequest r = JObject ms \<Longrightarrow>
   map_of ms ''parent.$id'' =
     (if ParentId r = 0 then None else Some (JNumber (Itoa (uint (ParentId r)))))"
  by (auto simp add: marshal_createCollectionRequest_def map_add_def)

text \<open>
  C1, as the claim states it, fails: a non-root creation with parent identifier zero sends
  a body without the parent field.
\<close>

theorem CreateCollection_zero_parent_counterexample:
  "CreateCollection_request (answering ok_empty) sample_heap sample_client ''tok'' False
     ''list'' ''Child'' 0 False 0 NilSlice None =
   Returns (Inr \<lparr>Method = ''POST'',
                 URL = \<lparr>Scheme = ''https'', Host = ''api.raindrop.io'',
                        Path = ''/rest/v1/collection'', RawQuery = []\<rparr>,
                 Header = [(''Content-Type'', [''application/json'']),
                           (''Authorization'', [''Bearer tok''])],
                 Payload = Some (JObject [(''view'', JString ''list''),
                                          (''title'', JString ''Child'')]),
                 Ctx = Background, Response = None\<rparr>)"
  by code_simp

text \<open>
  C1, amended. For every call to CreateCollection that builds its request, the body is a
  JSON object; it has no parent.$id member when isRoot is true or parentId is zero, and
  otherwise (isRoot false, parentId not zero) its parent.$id member is the number whose
  literal is parentId in decimal, which reads back as exactly parentId.
\<close>

theorem CreateCollection_parent_field:
  assumes "CreateCollection_request lib h c accessToken isRoot view title sort' public parentId
             cover ctx = Returns (Inr req)"
  shows "\<exists>ms. Payload req = Some (JObject ms) \<and>
              map_of ms ''parent.$id'' =
                (if isRoot \<or> parentId = 0 then None
                 else Some (JNumber (Itoa (uint parentId)))) \<and>
              ParseUint32 (Itoa (uint parentId)) = Some (unat parentId)"
proof -
  let ?collection =
    "\<lparr>View = view, Title = title, Sort = sort', Public = public,
      ParentId = (if isRoot then 0 else parentId), Cover = cover\<rparr>"
  from assms obtain u where
    "newRequest lib accessToken ''POST'' u (Some (Body_createCollectionRequest ?collection)) ctx =
       Inr req"
    by (auto simp add: CreateCollection_request_def Let_def split: option.splits if_splits)
  then have payload: "Payload req = Some (marshal_createCollectionRequest ?collection)"
    by (simp add: newRequest_Payload)
  obtain ms where ms: "marshal_createCollectionRequest ?collection = JObject ms"
    by (simp add: marshal_createCollectionRequest_def)
  from parent_member [OF ms]
  have "map_of ms ''parent.$id'' =
          (if isRoot \<or> parentId = 0 then None else Some (JNumber (Itoa (uint parentId))))"
    by simp
  with payload ms show ?thesis by (simp add: ParseUint32_Itoa)
qed

theorem CreateCollection_parent_field_witness:
  "CreateCollection_request (answering ok_empty) sample_heap sample_client ''tok'' False
     [] ''Child'' 0 False 42 NilSlice None =
   Returns (Inr \<lparr>Method = ''POST'',
                 URL = \<lparr>Scheme = ''https'', Host = ''api.raindrop.io'',
                        Path = ''/rest/v1/collection'', RawQuery = []\<rparr>,
                 Header = [(''Content-Type'', [''application/json'']),
                           (''Authorization'', [''Bearer tok''])],
                 Payload = Some (JObject [(''title'', JString ''Child''),
                                          (''parent.$id'', JNumber ''42'')]),
                 Ctx = Background, Response = None\<rparr>) \<and>
   map_of [(''title'', JString ''Child''), (''parent.$id'', JNumber ''42'')] ''parent.$id'' =
     Some (JNumber (Itoa (uint (42 :: 32 word)))) \<and>
   ParseUint32 ''42'' = Some 42"
proof -
  have built:
    "CreateCollection_request (answering ok_empty) sample_heap sample_client ''tok'' False
       [] ''Child'' 0 False 42 NilSlice None =
     Returns (Inr \<lparr>Method = ''POST'',
                   URL = \<lparr>Scheme = ''https'', Host = ''api.raindrop.io'',
                          Path = ''/rest/v1/collection'', RawQuery = []\<rparr>,
                   Header = [(''Content-Type'', [''application/json'']),
                             (''Authorization'', [''Bearer tok''])],
                   Payload = Some (JObject [(''title'', JString ''Child''),
                                            (''parent.$id'', JNumber ''42'')]),
                   Ctx = Background, Response = None\<rparr>)"
    by code_simp
  have literal: "Itoa (uint (42 :: 32 word)) = ''42''" by code_simp
  from CreateCollection_parent_field [OF built] built literal show ?thesis by simp
qed

subsection \<open>Search by tag\<close>

lemma raindrops_path: "Join [[], endpointRaindrops @ ''0''] = ''/rest/v1/raindrops/0''"
  by code_simp

lemma raindrops_url_string:
  "QueryUnescape (URL_String \<lparr>Scheme = ''https'', Host = ''api.raindrop.io'',
                               Path = ''/rest/v1/raindrops/0'', RawQuery = []\<rparr>) =
   Inr ''https://api.raindrop.io/rest/v1/raindrops/0''"
  by code_simp

lemma raindrops_url_parse:
  "url_Parse other ''https://api.raindrop.io/rest/v1/raindrops/0'' =
   Inr \<lparr>Scheme = ''https'', Host = ''api.raindrop.io'', Path = ''/rest/v1/raindrops/0'',
        RawQuery = []\<rparr>"
  by (simp add: url_Parse_def plain_https_def is_alnum_def)

lemma host_without_port: "removeEmptyPort ''api.raindrop.io'' = ''api.raindrop.io''"
  by code_simp

lemma GET_valid: "validMethod ''GET''"
  by code_simp

lemma recipe_query:
  \<open>Values_Encode (Values_Add (URL_Query \<lparr>Scheme = ''https'', Host = ''api.raindrop.io'',
                                          Path = ''/rest/v1/raindrops/0'', RawQuery = []\<rparr>)
                    ''search'' (createSingleSearchParameter ''tag'' ''recipe'')) =
   ''search=%5B%7B%22key%22%3A%22tag%22%2C%22val%22%3A%22recipe%22%7D%5D''\<close>
  by code_simp

lemma recipe_query_parsed:
  \<open>URL_Query \<lparr>Scheme = ''https'', Host = ''api.raindrop.io'', Path = ''/rest/v1/raindrops/0'',
               RawQuery = ''search=%5B%7B%22key%22%3A%22tag%22%2C%22val%22%3A%22recipe%22%7D%5D''\<rparr> =
   [(''search'', [''[{"key":"tag","val":"recipe"}]''])]\<close>
  by code_simp

lemma NewClient_result:
  assumes "NewClient lib h0 clientId' clientSecret' redirectUri' = Inr (c, h)"
  shows "authURL c = Some (length h0) \<and> apiURL c = Some (Suc (length h0)) \<and>
         clientId c = clientId' \<and> clientSecret c = clientSecret' \<and>
         redirectUri c = redirectUri' \<and>
         h = h0 @ [\<lparr>Scheme = ''https'', Host = ''raindrop.io'', Path = [], RawQuery = []\<rparr>,
                   \<lparr>Scheme = ''https'', Host = ''api.raindrop.io'', Path = [], RawQuery = []\<rparr>]"
proof -
  have "url_Parse (url_parse_other lib) authHost =
          Inr \<lparr>Scheme = ''https'', Host = ''raindrop.io'', Path = [], RawQuery = []\<rparr>"
    by (simp add: url_Parse_def plain_https_def authHost_def)
  moreover have "url_Parse (url_parse_other lib) apiHost =
          Inr \<lparr>Scheme = ''https'', Host = ''api.raindrop.io'', Path = [], RawQuery = []\<rparr>"
    by (simp add: url_Parse_def plain_https_def apiHost_def)
  ultimately show ?thesis using assms by (auto simp add: NewClient_def)
qed

lemma NewClient_api_url:
  assumes "NewClient lib h0 clientId' clientSecret' redirectUri' = Inr (c, h)"
  shows "load h (apiURL c) =
           Some \<lparr>Scheme = ''https'', Host = ''api.raindrop.io'', Path = [], RawQuery = []\<rparr>"
  using NewClient_result [OF assms] by (simp add: load_def nth_append)

lemma sample_api_url:
  "load sample_heap (apiURL sample_client) =
     Some \<lparr>Scheme = ''https'', Host = ''api.raindrop.io'', Path = [], RawQuery = []\<rparr>"
  by (simp add: load_def sample_heap_def sample_client_def)

lemma sample_is_NewClient:
  "NewClient lib [] ''my-id'' ''my-secret'' ''https://example.com/cb'' =
     Inr (sample_client, sample_heap)"
  by (simp add: NewClient_def url_Parse_def plain_https_def authHost_def apiHost_def
        sample_client_def sample_heap_def)

text \<open>
  C9. For a client whose API base URL is the one NewClient parses (every client NewClient
  returns has it: \<open>NewClient_api_url\<close>), every token and every context, GetTaggedRaindrops
  with the tag "recipe" builds a GET request whose path is /rest/v1/raindrops/0 and whose
  query has the one parameter search, with the value [{"key":"tag","val":"recipe"}]
  (percent-encoded in the raw query).
\<close>

theorem GetTaggedRaindrops_recipe_request:
  assumes "load h (apiURL c) =
             Some \<lparr>Scheme = ''https'', Host = ''api.raindrop.io'', Path = [], RawQuery = []\<rparr>"
  shows \<open>\<exists>req. GetTaggedRaindrops_request lib h c accessToken ''recipe'' ctx = Returns (Inr req) \<and>
               Method req = ''GET'' \<and>
               Host (URL req) = ''api.raindrop.io'' \<and>
               Path (URL req) = ''/rest/v1/raindrops/0'' \<and>
               RawQuery (URL req) =
                 ''search=%5B%7B%22key%22%3A%22tag%22%2C%22val%22%3A%22recipe%22%7D%5D'' \<and>
               URL_Query (URL req) = [(''search'', [''[{"key":"tag","val":"recipe"}]''])]\<close>
  using assms
  by (cases ctx)
     (simp_all add: GetTaggedRaindrops_request_def raindrops_path newRequest_def
        raindrops_url_string NewRequest_def NewRequestWithContext_def GET_valid
        raindrops_url_parse host_without_port recipe_query recipe_query_parsed Let_def)

theorem GetTaggedRaindrops_recipe_request_witness:
  \<open>\<exists>req. GetTaggedRaindrops_request (answering ok_empty) sample_heap sample_client ''tok''
            ''recipe'' None = Returns (Inr req) \<and>
         Path (URL req) = ''/rest/v1/raindrops/0'' \<and>
         Values_Get (URL_Query (URL req)) ''search'' = ''[{"key":"tag","val":"recipe"}]''\<close>
  using GetTaggedRaindrops_recipe_request [OF sample_api_url, of "answering ok_empty" "''tok''" None]
  by (auto simp add: Values_Get_def)

subsection \<open>Authorization\<close>

lemma GetAuthorizationCode_code:
  assumes "Values_Get (URL_Query (URL r)) ''code'' = code" and "code \<noteq> []"
  shows "GetAuthorizationCode r = Returns (Inr code)"
  using assms by (simp add: GetAuthorizationCode_def Let_def)

lemma GetAuthorizationCode_error:
  assumes "Values_Get (URL_Query (URL r)) ''code'' = []"
    and "Values_Get (URL_Query (URL r)) ''error'' = authErr" and "authErr \<noteq> []"
  shows "GetAuthorizationCode r =
           Returns (Inl (ErrorString (''Can't get authorization code: '' @ authErr)))"
  using assms by (simp add: GetAuthorizationCode_def Let_def)

lemma GetAuthorizationCode_status:
  assumes "Values_Get (URL_Query (URL r)) ''code'' = []"
    and "Values_Get (URL_Query (URL r)) ''error'' = []"
    and "Response r = Some resp"
  shows "GetAuthorizationCode r =
           Returns (Inl (ErrorString (''Can't get authorization code: '' @
                                      Itoa (StatusCode resp))))"
  using assms by (simp add: GetAuthorizationCode_def Let_def)

lemma GetAuthorizationCode_examples:
  "GetAuthorizationCode (inbound ''code=abc123'') = Returns (Inr ''abc123'')"
  "GetAuthorizationCode (inbound ''error=access_denied'') =
     Returns (Inl (ErrorString ''Can't get authorization code: access_denied''))"
  by code_simp+

text \<open>
  C5. The first two parts of the claim hold (\<open>GetAuthorizationCode_code\<close>,
  \<open>GetAuthorizationCode_error\<close>). The third does not: the status is read from r.Response,
  which is set only on a request a client made while following a redirect
  (\<open>GetAuthorizationCode_status\<close>). On a request that a server receives the field is nil,
  so a redirect with neither code nor error ends in a nil pointer dereference, not in a
  returned error.
\<close>

theorem GetAuthorizationCode_without_response:
  assumes "Values_Get (URL_Query (URL r)) ''code'' = []"
    and "Values_Get (URL_Query (URL r)) ''error'' = []"
    and "Response r = None"
  shows "GetAuthorizationCode r = Panics NilPointerDereference"
  using assms by (simp add: GetAuthorizationCode_def)

theorem GetAuthorizationCode_without_response_witness:
  "GetAuthorizationCode (inbound ''state=xyz'') = Panics NilPointerDereference"
proof -
  have "URL_Query (URL (inbound ''state=xyz'')) = [(''state'', [''xyz''])]" by code_simp
  then show ?thesis
    using GetAuthorizationCode_without_response [of "inbound ''state=xyz''"]
    by (simp add: Values_Get_def inbound_def)
qed

lemma Clean_not_empty: "Clean p \<noteq> []"
  by (simp add: Clean_def Let_def)

lemma Join_single: "p \<noteq> [] \<Longrightarrow> Join [p] = Clean p"
  by (simp add: Join_def)

text \<open>
  C4. NewClient creates the configuration, but GetAuthorizationURL changes it: it assigns
  the path of the authorization URL through the client's own pointer, so after the first
  call the client's authorization base URL has the path
  /oauth/authorize?client_id=...&redirect_uri=... (cleaned by path.Join) instead of the
  empty path NewClient gave it.
\<close>

theorem GetAuthorizationURL_writes_configuration:
  assumes "NewClient lib h0 clientId' clientSecret' redirectUri' = Inr (c, h)"
  shows "\<exists>u h'. GetAuthorizationURL h c = Returns (u, h') \<and>
                load h (authURL c) =
                  Some \<lparr>Scheme = ''https'', Host = ''raindrop.io'', Path = [], RawQuery = []\<rparr> \<and>
                load h' (authURL c) =
                  Some \<lparr>Scheme = ''https'', Host = ''raindrop.io'',
                        Path = Clean (''/oauth/authorize?client_id='' @ clientId' @
                                      ''&redirect_uri='' @ redirectUri'),
                        RawQuery = []\<rparr> \<and>
                configuration h' c \<noteq> configuration h c"
proof -
  note made = NewClient_result [OF assms]
  let ?auth = "\<lparr>Scheme = ''https'', Host = ''raindrop.io'', Path = [], RawQuery = []\<rparr>"
  let ?uri = "''/oauth/authorize?client_id='' @ clientId' @ ''&redirect_uri='' @ redirectUri'"
  from made have before: "load h (authURL c) = Some ?auth"
    by (simp add: load_def nth_append)
  have path: "Join [?uri] = Clean ?uri" by (rule Join_single) simp
  from made have after:
    "load (store h (length h0) (?auth\<lparr>Path := Clean ?uri\<rparr>)) (authURL c) =
       Some (?auth\<lparr>Path := Clean ?uri\<rparr>)"
    by (simp add: load_def store_def nth_append)
  from made before after path
  have call: "GetAuthorizationURL h c =
          Returns (?auth\<lparr>Path := Clean ?uri\<rparr>, store h (length h0) (?auth\<lparr>Path := Clean ?uri\<rparr>))"
    by (simp add: GetAuthorizationURL_def endpointAuthorize_def Let_def)
  from before after made Clean_not_empty [of ?uri]
  have "configuration (store h (length h0) (?auth\<lparr>Path := Clean ?uri\<rparr>)) c \<noteq> configuration h c"
    by (auto simp add: configuration_def)
  with call before after made show ?thesis by auto
qed

theorem GetAuthorizationURL_writes_configuration_witness:
  "\<exists>u h'. GetAuthorizationURL sample_heap sample_client = Returns (u, h') \<and>
           load sample_heap (authURL sample_client) =
             Some \<lparr>Scheme = ''https'', Host = ''raindrop.io'', Path = [], RawQuery = []\<rparr> \<and>
           load h' (authURL sample_client) =
             Some \<lparr>Scheme = ''https'', Host = ''raindrop.io'',
                   Path = ''/oauth/authorize?client_id=my-id&redirect_uri=https:/example.com/cb'',
                   RawQuery = []\<rparr>"
proof -
  have "Clean (''/oauth/authorize?client_id='' @ ''my-id'' @ ''&redirect_uri='' @
               ''https://example.com/cb'') =
        ''/oauth/authorize?client_id=my-id&redirect_uri=https:/example.com/cb''"
    by code_simp
  with GetAuthorizationURL_writes_configuration
         [OF sample_is_NewClient [of "answering ok_empty"]]
  show ?thesis by auto
qed

subsection \<open>Simple bookmark creation\<close>

lemma CreateSimpleRaindrop_placeholder_title:
  assumes "fst (http_Get lib link) = Some page" and "snd (GetHtmlTitle lib (Body page)) = False"
    and "CreateSimpleRaindrop_request lib h c accessToken link ctx = Returns (Inr req)"
  shows "Payload req =
           Some (marshal_Raindrop (zero_Raindrop\<lparr>Raindrop.Title := ''Fail to get HTML title'',
                                                  Raindrop.Link := link\<rparr>))"
proof -
  let ?raindrop = "zero_Raindrop\<lparr>PleaseParse := pleaseParse,
                     Raindrop.Title := ''Fail to get HTML title'', Raindrop.Link := link\<rparr>"
  from assms obtain u where
    "newRequest lib accessToken ''POST'' u (Some (Body_Raindrop ?raindrop)) ctx = Inr req"
    by (auto simp add: CreateSimpleRaindrop_request_def Let_def
          split: option.splits prod.splits)
  then have "Payload req = Some (Encode (Body_Raindrop ?raindrop))"
    by (simp add: newRequest_Payload)
  then show ?thesis by (simp add: zero_Raindrop_def)
qed

text \<open>
  C2. When the page has no title the placeholder is sent
  (\<open>CreateSimpleRaindrop_placeholder_title\<close>). When http.Get yields no response (every
  failure of the GET but a refused redirect), the error is dropped and resp is nil:
  reading resp.Body is a nil pointer dereference, so the operation panics and nothing is
  posted.
\<close>

theorem CreateSimpleRaindrop_failed_fetch:
  assumes "load h (apiURL c) = Some u" and "fst (http_Get lib link) = None"
  shows "CreateSimpleRaindrop lib h c accessToken link ctx = Panics NilPointerDereference"
  using assms by (simp add: CreateSimpleRaindrop_def CreateSimpleRaindrop_request_def)

theorem CreateSimpleRaindrop_failed_fetch_witness:
  "CreateSimpleRaindrop (answering ok_empty) sample_heap sample_client ''tok'' [] None =
     Panics NilPointerDereference"
  using CreateSimpleRaindrop_failed_fetch
          [OF sample_api_url, of "answering ok_empty" "[]" "''tok''" None]
  by (simp add: answering_def)

end
